theory Spec2Isabelle
  imports Main "HOL-Library.Sublist"
begin

section \<open>Python values and text\<close>

text \<open>
  The handlers and connectors of \<^verbatim>\<open>sap_mcp\<close> pass around Python strings, optional
  strings, integers and dictionaries of backend scalars. A Python \<^verbatim>\<open>str\<close> that the code
  only passes along, joins, quotes or compares with a literal is a HOL \<open>string\<close>. The
  SQL statement is the one string that the code trims and upper-cases, which Python does
  with the Unicode tables of its runtime; it is a \<open>pystr\<close>, a list of code points, of
  which those below 128 are ASCII. A scalar that a backend can report is a \<open>pyval\<close>.
\<close>

text \<open>
  \<open>PyObject text truth\<close> stands for an object of any other type (a float, a
  \<^verbatim>\<open>Decimal\<close>, a date, a byte string): the code reads nothing of such an object but
  its \<^verbatim>\<open>str()\<close> and its truth value, which the two components give.
\<close>

datatype pyval = PyNone | PyBool bool | PyInt int | PyStr string | PyObject string bool

text \<open>Truth value of an object, as used by \<^verbatim>\<open>not x\<close>, \<^verbatim>\<open>x or y\<close> and \<^verbatim>\<open>any(...)\<close>.\<close>

fun py_truthy :: "pyval \<Rightarrow> bool" where
  "py_truthy PyNone = False"
| "py_truthy (PyBool b) = b"
| "py_truthy (PyInt i) = (i \<noteq> 0)"
| "py_truthy (PyStr s) = (s \<noteq> [])"
| "py_truthy (PyObject text truth) = truth"

text \<open>\<^verbatim>\<open>x or y\<close>.\<close>

definition py_or :: "pyval \<Rightarrow> pyval \<Rightarrow> pyval" where
  "py_or x y = (if py_truthy x then x else y)"

text \<open>An argument declared \<^verbatim>\<open>Optional[str]\<close>.\<close>

fun py_opt :: "string option \<Rightarrow> pyval" where
  "py_opt None = PyNone"
| "py_opt (Some s) = PyStr s"

fun digits_of :: "nat \<Rightarrow> string" where
  "digits_of n =
     (if n < 10 then [''0123456789'' ! n]
      else digits_of (n div 10) @ [''0123456789'' ! (n mod 10)])"

declare digits_of.simps [simp del]

text \<open>\<^verbatim>\<open>str(x)\<close>.\<close>

fun py_str :: "pyval \<Rightarrow> string" where
  "py_str PyNone = ''None''"
| "py_str (PyBool b) = (if b then ''True'' else ''False'')"
| "py_str (PyInt i) = (if i < 0 then ''-'' @ digits_of (nat (- i)) else digits_of (nat i))"
| "py_str (PyStr s) = s"
| "py_str (PyObject text truth) = text"

subsection \<open>Code points\<close>

type_synonym pystr = "nat list"

text \<open>The code points of an ASCII literal.\<close>

definition cps :: "string \<Rightarrow> pystr" where
  "cps s = map of_char s"

text \<open>
  \<^verbatim>\<open>str.isspace\<close> on one code point, over all of Unicode: U+0009 to U+000D, U+001C to
  U+001F, the space, U+0085, U+00A0, U+1680, U+2000 to U+200A, U+2028, U+2029, U+202F,
  U+205F and U+3000.
\<close>

definition py_isspace :: "nat \<Rightarrow> bool" where
  "py_isspace c =
     ((9 \<le> c \<and> c \<le> 13) \<or> (28 \<le> c \<and> c \<le> 32) \<or> c = 133 \<or> c = 160 \<or> c = 5760
      \<or> (8192 \<le> c \<and> c \<le> 8202) \<or> c = 8232 \<or> c = 8233 \<or> c = 8239 \<or> c = 8287
      \<or> c = 12288)"

text \<open>\<^verbatim>\<open>s.strip()\<close>: leading and trailing whitespace removed.\<close>

definition py_strip :: "pystr \<Rightarrow> pystr" where
  "py_strip s = rev (dropWhile py_isspace (rev (dropWhile py_isspace s)))"

text \<open>
  \<^verbatim>\<open>s.upper()\<close> replaces every code point by the code points of its upper-case form,
  one code point at a time. On ASCII that form is known: the letters a to z go to A to Z
  and nothing else changes. No whitespace character has a case mapping. For every other
  code point the form is read from the case table of the runtime's Unicode version
  (U+00DF goes to the two letters SS, U+00B5 to U+039C, U+017F to S, and so on); the
  table is the parameter \<open>upper_of\<close>, and what is proved holds for every table.
\<close>

definition py_upper_cp :: "(nat \<Rightarrow> pystr) \<Rightarrow> nat \<Rightarrow> pystr" where
  "py_upper_cp upper_of c =
     (if c < 128 then [if 97 \<le> c \<and> c \<le> 122 then c - 32 else c]
      else if py_isspace c then [c]
      else upper_of c)"

definition py_upper :: "(nat \<Rightarrow> pystr) \<Rightarrow> pystr \<Rightarrow> pystr" where
  "py_upper upper_of s = concat (map (py_upper_cp upper_of) s)"

text \<open>\<^verbatim>\<open>s.startswith(p)\<close>.\<close>

definition py_startswith :: "'a list \<Rightarrow> 'a list \<Rightarrow> bool" where
  "py_startswith s p = (take (length p) s = p)"

text \<open>\<^verbatim>\<open>needle in hay\<close> on strings: \<open>needle\<close> occurs in \<open>hay\<close> as a contiguous run.\<close>

fun py_in :: "'a list \<Rightarrow> 'a list \<Rightarrow> bool" where
  "py_in needle [] = (needle = [])"
| "py_in needle (c # cs) = (py_startswith (c # cs) needle \<or> py_in needle cs)"

text \<open>\<^verbatim>\<open>sep.join(parts)\<close>.\<close>

fun py_join :: "string \<Rightarrow> string list \<Rightarrow> string" where
  "py_join sep [] = []"
| "py_join sep [p] = p"
| "py_join sep (p # q # ps) = p @ sep @ py_join sep (q # ps)"


subsection \<open>Dictionaries\<close>

text \<open>
  A Python \<^verbatim>\<open>dict\<close> with string keys keeps its keys in insertion order, so it is an
  association list. Assigning to a key that is already present replaces its value in
  place; assigning to a new key appends it.
\<close>

type_synonym pydict = "(string \<times> pyval) list"

text \<open>\<^verbatim>\<open>d[k] = v\<close>.\<close>

fun dict_setitem :: "pydict \<Rightarrow> string \<Rightarrow> pyval \<Rightarrow> pydict" where
  "dict_setitem [] k v = [(k, v)]"
| "dict_setitem ((k', v') # d) k v =
     (if k' = k then (k, v) # d else (k', v') # dict_setitem d k v)"

text \<open>\<^verbatim>\<open>d.get(k, default)\<close>.\<close>

definition dict_get :: "pydict \<Rightarrow> string \<Rightarrow> pyval \<Rightarrow> pyval" where
  "dict_get d k dflt = (case map_of d k of None \<Rightarrow> dflt | Some v \<Rightarrow> v)"

text \<open>\<^verbatim>\<open>list(d.keys())\<close>.\<close>

definition dict_keys :: "pydict \<Rightarrow> string list" where
  "dict_keys d = map fst d"

subsection \<open>Exceptions\<close>

text \<open>
  A raised exception, with the text that \<^verbatim>\<open>str(e)\<close> returns. \<open>Exception\<close> is an
  instance of \<^verbatim>\<open>Exception\<close> or of a subclass of it, which an
  \<^verbatim>\<open>except Exception\<close> clause catches. \<open>BaseException\<close> is an instance of a class
  outside \<^verbatim>\<open>Exception\<close> (\<^verbatim>\<open>KeyboardInterrupt\<close>, \<^verbatim>\<open>SystemExit\<close>,
  \<^verbatim>\<open>GeneratorExit\<close>), which such a clause lets through. A computation that may raise
  returns \<open>exn + 'a\<close>, with \<open>Inl\<close> for the raise.
\<close>

datatype exn = Exception string | BaseException string

fun str_exn :: "exn \<Rightarrow> string" where
  "str_exn (Exception msg) = msg"
| "str_exn (BaseException msg) = msg"

text \<open>Sequencing of statements that may raise: the first raise ends the sequence.\<close>

definition and_then :: "exn + 'a \<Rightarrow> ('a \<Rightarrow> exn + 'b) \<Rightarrow> exn + 'b" where
  "and_then r f = (case r of Inl e \<Rightarrow> Inl e | Inr x \<Rightarrow> f x)"

text \<open>
  The \<^verbatim>\<open>TypeError\<close>s of a call whose keywords do not fit the parameters: a keyword
  that names no parameter, and a parameter without default that got no argument.
\<close>

definition TypeError_unexpected :: "string \<Rightarrow> string \<Rightarrow> exn" where
  "TypeError_unexpected qualname k =
     Exception (qualname @ ''() got an unexpected keyword argument ''
                  @ CHR 0x27 # k @ [CHR 0x27])"

definition TypeError_missing :: "string \<Rightarrow> string \<Rightarrow> exn" where
  "TypeError_missing qualname k =
     Exception (qualname @ ''() missing 1 required positional argument: ''
                  @ CHR 0x27 # k @ [CHR 0x27])"

section \<open>csv\_utils: the tabular formatter\<close>

text \<open>
  \<^verbatim>\<open>csv.writer\<close> with \<^verbatim>\<open>quoting=csv.QUOTE_ALL\<close> and the default dialect: a field that
  is \<^verbatim>\<open>None\<close> is written as the empty text, any other field as \<^verbatim>\<open>str(field)\<close>; every
  field is wrapped in double quotes, each double quote inside it is written twice;
  fields are joined by commas and the record ends with carriage return, line feed.
\<close>

fun csv_field_text :: "pyval \<Rightarrow> string" where
  "csv_field_text PyNone = []"
| "csv_field_text v = py_str v"

definition csv_quote :: "string \<Rightarrow> string" where
  "csv_quote s =
     CHR 0x22 # concat (map (\<lambda>c. if c = CHR 0x22 then [CHR 0x22, CHR 0x22] else [c]) s)
       @ [CHR 0x22]"

definition csv_writerow :: "pyval list \<Rightarrow> string" where
  "csv_writerow fields =
     py_join '','' (map (\<lambda>v. csv_quote (csv_field_text v)) fields) @ [CHR 0x0D, CHR 0x0A]"

text \<open>
  \<^verbatim>\<open>csv.DictWriter(output, fieldnames=columns, quoting=csv.QUOTE_ALL,
  extrasaction="ignore")\<close>: \<^verbatim>\<open>writeheader\<close> writes the field names themselves;
  \<^verbatim>\<open>writerow(row)\<close> writes \<^verbatim>\<open>row.get(key, "")\<close> for each field name in turn.
\<close>

definition DictWriter_writeheader :: "string list \<Rightarrow> string" where
  "DictWriter_writeheader fieldnames = csv_writerow (map PyStr fieldnames)"

definition DictWriter_writerow :: "string list \<Rightarrow> pydict \<Rightarrow> string" where
  "DictWriter_writerow fieldnames row =
     csv_writerow (map (\<lambda>key. dict_get row key (PyStr [])) fieldnames)"

text \<open>\<^verbatim>\<open>to_csv(rows, columns=None)\<close>.\<close>

definition to_csv :: "pydict list \<Rightarrow> string list option \<Rightarrow> string" where
  "to_csv rows columns =
     (case rows of
        [] \<Rightarrow> []
      | row0 # _ \<Rightarrow>
          (let columns' = (case columns of None \<Rightarrow> dict_keys row0 | Some cs \<Rightarrow> cs)
           in DictWriter_writeheader columns'
              @ concat (map (DictWriter_writerow columns') rows)))"

section \<open>The connector contract seen by the tools\<close>

text \<open>
  A tool handler holds a \<^verbatim>\<open>BaseConnector\<close> and calls one of its methods at most once.
  The connector is a record of what each method does when called: it returns a list of
  dictionaries or raises. \<^verbatim>\<open>get_tables\<close> and \<^verbatim>\<open>get_columns\<close> are called with keyword
  arguments only, so they receive the keywords as written at the call site.
  A handler's result is what it returns, a text, or the exception that leaves it,
  together with the connector calls it made.
\<close>

type_synonym kwargs = "(string \<times> pyval) list"

record connector =
  conn_get_tables :: "kwargs \<Rightarrow> exn + pydict list"
  conn_get_columns :: "kwargs \<Rightarrow> exn + pydict list"
  conn_execute_query :: "pystr \<Rightarrow> exn + pydict list"

datatype call =
    Call_get_tables kwargs
  | Call_get_columns kwargs
  | Call_execute_query pystr

section \<open>tools: the three handlers\<close>

text \<open>
  \<^verbatim>\<open>try: ... except Exception as e: return f"ERROR: {str(e)}"\<close> around a body that
  returns a text or raises.
\<close>

definition except_Exception :: "exn + string \<Rightarrow> exn + string" where
  "except_Exception r =
     (case r of
        Inr text \<Rightarrow> Inr text
      | Inl e \<Rightarrow>
          (case e of
             Exception msg \<Rightarrow> Inr (''ERROR: '' @ str_exn e)
           | BaseException msg \<Rightarrow> Inl e))"

text \<open>\<^verbatim>\<open>any(t.get(key) for t in records)\<close>.\<close>

definition any_get :: "string \<Rightarrow> pydict list \<Rightarrow> bool" where
  "any_get key records = list_ex (\<lambda>t. py_truthy (dict_get t key PyNone)) records"

text \<open>tools/get\_tables.py, \<^verbatim>\<open>get_tables(catalog=None, schema=None, search=None, limit=50)\<close>.\<close>

definition get_tables ::
  "connector \<Rightarrow> string option \<Rightarrow> string option \<Rightarrow> string option \<Rightarrow> int
     \<Rightarrow> (exn + string) \<times> call list" where
  "get_tables connector catalog schema search limit =
     (let kw = [(''catalog'', py_opt catalog), (''schema'', py_opt schema),
                (''search'', py_opt search), (''limit'', PyInt limit)]
      in (except_Exception
            (and_then (conn_get_tables connector kw) (\<lambda>tables.
               Inr (if tables = [] then ''No tables found.''
                    else to_csv tables
                           (Some ((if any_get ''Catalog'' tables then [''Catalog''] else [])
                                  @ (if any_get ''Schema'' tables then [''Schema''] else [])
                                  @ [''Table'', ''Description'']))))),
          [Call_get_tables kw]))"

text \<open>tools/get\_columns.py, \<^verbatim>\<open>get_columns(table, catalog=None, schema=None)\<close>: the body,
  entered with a \<^verbatim>\<open>table\<close>; \<^verbatim>\<open>not table\<close> holds for the empty string.\<close>

definition get_columns ::
  "connector \<Rightarrow> string \<Rightarrow> string option \<Rightarrow> string option \<Rightarrow> (exn + string) \<times> call list" where
  "get_columns connector table catalog schema =
     (if \<not> py_truthy (PyStr table) then (Inr ''ERROR: table parameter is required'', [])
      else
        (let kw = [(''table'', PyStr table), (''catalog'', py_opt catalog),
                   (''schema'', py_opt schema)]
         in (except_Exception
               (and_then (conn_get_columns connector kw) (\<lambda>columns.
                  Inr (if columns = [] then ''No columns found for table: '' @ table
                       else to_csv columns
                              (Some ((if any_get ''Catalog'' columns then [''Catalog''] else [])
                                     @ (if any_get ''Schema'' columns then [''Schema''] else [])
                                     @ [''Table'', ''Column'', ''DataType'',
                                        ''Description'']))))),
             [Call_get_columns kw])))"

text \<open>tools/run\_query.py, \<^verbatim>\<open>run_query(sql)\<close>: the body, entered with a statement;
  \<^verbatim>\<open>not sql\<close> holds for the empty string. The part after the two guards, from the
  \<^verbatim>\<open>try\<close> on, is \<open>run_query_checked\<close>.\<close>

definition dangerous_keywords :: "string list" where
  "dangerous_keywords =
     [''INSERT'', ''UPDATE'', ''DELETE'', ''DROP'', ''CREATE'', ''ALTER'', ''TRUNCATE'']"

definition limit_note :: string where
  "limit_note =
     ''Note: Query result limited to 50 rows for performance. Use explicit LIMIT to change this.''"

definition run_query_checked ::
  "connector \<Rightarrow> pystr \<Rightarrow> pystr \<Rightarrow> (exn + string) \<times> call list" where
  "run_query_checked connector sql sql_upper =
     (let limit_applied =
            (\<not> py_in (cps ''LIMIT'') sql_upper \<and> \<not> py_in (cps ''TOP'') sql_upper);
          sql' = (if limit_applied then sql @ cps '' LIMIT 50'' else sql)
      in (except_Exception
            (and_then (conn_execute_query connector sql') (\<lambda>rows.
               Inr (if rows = [] then ''Query returned no results.''
                    else
                      (let result_csv = to_csv rows None
                       in if limit_applied
                          then limit_note @ [CHR 0x0A, CHR 0x0A] @ result_csv
                          else result_csv)))),
          [Call_execute_query sql']))"

definition run_query ::
  "(nat \<Rightarrow> pystr) \<Rightarrow> connector \<Rightarrow> pystr \<Rightarrow> (exn + string) \<times> call list" where
  "run_query upper_of connector sql =
     (if sql = [] then (Inr ''ERROR: sql parameter is required'', [])
      else
        (let sql_upper = py_upper upper_of (py_strip sql)
         in if \<not> py_startswith sql_upper (cps ''SELECT'')
            then (Inr ''ERROR: Only SELECT statements are allowed'', [])
            else
              (case find (\<lambda>keyword. py_in (cps keyword) sql_upper) dangerous_keywords of
                 Some keyword \<Rightarrow>
                   (Inr (''ERROR: '' @ keyword @ '' statements are not allowed''), [])
               | None \<Rightarrow> run_query_checked connector sql sql_upper)))"

text \<open>
  A call of a handler. \<^verbatim>\<open>table\<close> and \<^verbatim>\<open>sql\<close> are parameters without default: a call
  that leaves the argument out (\<open>None\<close> here) raises \<^verbatim>\<open>TypeError\<close> when Python binds
  the arguments, before the body runs; the protocol layer rejects such a call likewise
  before it reaches the function.
\<close>

definition call_get_columns ::
  "connector \<Rightarrow> string option \<Rightarrow> string option \<Rightarrow> string option
     \<Rightarrow> (exn + string) \<times> call list" where
  "call_get_columns connector table catalog schema =
     (case table of
        None \<Rightarrow>
          (Inl (TypeError_missing ''register_get_columns_tool.<locals>.get_columns'' ''table''),
           [])
      | Some t \<Rightarrow> get_columns connector t catalog schema)"

definition call_run_query ::
  "(nat \<Rightarrow> pystr) \<Rightarrow> connector \<Rightarrow> pystr option \<Rightarrow> (exn + string) \<times> call list" where
  "call_run_query upper_of connector sql =
     (case sql of
        None \<Rightarrow>
          (Inl (TypeError_missing ''register_run_query_tool.<locals>.run_query'' ''sql''), [])
      | Some s \<Rightarrow> run_query upper_of connector s)"

section \<open>connectors: the two variants over a native driver\<close>

text \<open>
  Both connectors talk to a DB-API driver (\<^verbatim>\<open>hdbcli\<close> for HANA, \<^verbatim>\<open>pyodbc\<close> for ODBC).
  The driver is outside the repository, so it is a parameter: a record of what each
  driver call answers, every one of which may raise. \<open>installed\<close> says whether the
  driver module can be imported at all; \<open>drv_connect\<close> is the driver's
  answer to the connector's own connection parameters and yields a connection handle;
  \<open>drv_execute\<close> yields the cursor's \<^verbatim>\<open>description\<close> (the first component of each
  entry, \<open>None\<close> for a statement without a result set) and the rows the cursor then
  iterates over; \<open>drv_tables\<close> and \<open>drv_columns\<close> are pyodbc's catalog functions.
\<close>

record result_set =
  description :: "string list option"
  fetched :: "pyval list list"

record tables_row =
  table_cat :: pyval
  table_schem :: pyval
  table_name :: pyval
  remarks :: pyval

record columns_row =
  col_table_cat :: pyval
  col_table_schem :: pyval
  col_table_name :: pyval
  col_column_name :: pyval
  col_type_name :: pyval
  col_remarks :: "pyval option"

record driver =
  installed :: bool
  drv_connect :: "exn + nat"
  drv_cursor :: "nat \<Rightarrow> exn + unit"
  drv_execute :: "pystr \<Rightarrow> exn + result_set"
  drv_fetchone :: "exn + unit"
  drv_tables :: "pyval \<Rightarrow> pyval \<Rightarrow> exn + tables_row list"
  drv_columns :: "pyval \<Rightarrow> pyval \<Rightarrow> pyval \<Rightarrow> exn + columns_row list"
  drv_close :: "exn + unit"

subsection \<open>Rows as dictionaries\<close>

text \<open>
  The inner loop of \<^verbatim>\<open>execute_query\<close>:
  \<^verbatim>\<open>for i, value in enumerate(row): row_dict[column_names[i]] = value\<close>.
  Reading \<^verbatim>\<open>column_names[i]\<close> past the end raises \<^verbatim>\<open>IndexError\<close>.
\<close>

fun row_to_dict :: "string list \<Rightarrow> nat \<Rightarrow> pyval list \<Rightarrow> pydict \<Rightarrow> exn + pydict" where
  "row_to_dict column_names i [] row_dict = Inr row_dict"
| "row_to_dict column_names i (value # rest) row_dict =
     (if i < length column_names
      then row_to_dict column_names (Suc i) rest
             (dict_setitem row_dict (column_names ! i) value)
      else Inl (Exception ''list index out of range''))"

text \<open>The outer loop: \<^verbatim>\<open>for row in cursor: ...; rows.append(row_dict)\<close>.\<close>

fun rows_to_dicts :: "string list \<Rightarrow> pyval list list \<Rightarrow> exn + pydict list" where
  "rows_to_dicts column_names [] = Inr []"
| "rows_to_dicts column_names (row # others) =
     and_then (row_to_dict column_names 0 row [])
       (\<lambda>row_dict. and_then (rows_to_dicts column_names others)
          (\<lambda>rows. Inr (row_dict # rows)))"

text \<open>
  The body of \<^verbatim>\<open>execute_query\<close> after the connection is there; the two connectors have
  the same text here.
\<close>

definition execute_on :: "driver \<Rightarrow> nat \<Rightarrow> pystr \<Rightarrow> exn + pydict list" where
  "execute_on drv conn sql =
     and_then (drv_cursor drv conn) (\<lambda>_.
     and_then (drv_execute drv sql) (\<lambda>rs.
       case description rs of
         None \<Rightarrow> Inl (Exception (CHR 0x27 # ''NoneType'' @ CHR 0x27 # '' object is not iterable''))
       | Some column_names \<Rightarrow>
           and_then (rows_to_dicts column_names (fetched rs)) (\<lambda>rows.
           and_then (drv_close drv) (\<lambda>_. Inr rows))))"

text \<open>The body of \<^verbatim>\<open>test_connection\<close> after the connection is there.\<close>

definition probe :: "driver \<Rightarrow> nat \<Rightarrow> pystr \<Rightarrow> exn + unit" where
  "probe drv conn sql =
     and_then (drv_cursor drv conn) (\<lambda>_.
     and_then (drv_execute drv sql) (\<lambda>_.
     and_then (drv_fetchone drv) (\<lambda>_. drv_close drv)))"

subsection \<open>connectors/hana.py\<close>

text \<open>
  The mutable part of a \<^verbatim>\<open>HanaConnector\<close>: \<^verbatim>\<open>_connection\<close>, and \<^verbatim>\<open>_last_error\<close>, an
  attribute that does not exist until \<^verbatim>\<open>test_connection\<close> has failed once.
\<close>

record HanaConnector =
  hana_connection :: "nat option"
  hana_last_error :: "string option"

definition HanaConnector_connect ::
  "driver \<Rightarrow> HanaConnector \<Rightarrow> (exn + nat) \<times> HanaConnector" where
  "HanaConnector_connect drv self =
     (if \<not> installed drv
      then (Inl (Exception
             ''hdbcli is required for HANA connections. Install with: pip install hdbcli''),
            self)
      else (case drv_connect drv of
              Inl e \<Rightarrow> (Inl e, self)
            | Inr h \<Rightarrow> (Inr h, self\<lparr>hana_connection := Some h\<rparr>)))"

definition HanaConnector_get_connection ::
  "driver \<Rightarrow> HanaConnector \<Rightarrow> (exn + nat) \<times> HanaConnector" where
  "HanaConnector_get_connection drv self =
     (case hana_connection self of
        None \<Rightarrow> HanaConnector_connect drv self
      | Some h \<Rightarrow> (Inr h, self))"

definition HanaConnector_execute_query ::
  "driver \<Rightarrow> HanaConnector \<Rightarrow> pystr \<Rightarrow> (exn + pydict list) \<times> HanaConnector" where
  "HanaConnector_execute_query drv self sql =
     (case HanaConnector_get_connection drv self of
        (Inl e, self') \<Rightarrow> (Inl e, self')
      | (Inr conn, self') \<Rightarrow> (execute_on drv conn sql, self'))"

text \<open>\<^verbatim>\<open>test_connection\<close>: the \<^verbatim>\<open>try\<close> block, then the \<^verbatim>\<open>except Exception as e\<close>.\<close>

definition HanaConnector_test_connection_try ::
  "driver \<Rightarrow> HanaConnector \<Rightarrow> (exn + unit) \<times> HanaConnector" where
  "HanaConnector_test_connection_try drv self =
     (case HanaConnector_get_connection drv self of
        (Inl e, self') \<Rightarrow> (Inl e, self')
      | (Inr conn, self') \<Rightarrow> (probe drv conn (cps ''SELECT 1 FROM DUMMY''), self'))"

definition HanaConnector_test_connection ::
  "driver \<Rightarrow> HanaConnector \<Rightarrow> (exn + bool) \<times> HanaConnector" where
  "HanaConnector_test_connection drv self =
     (case HanaConnector_test_connection_try drv self of
        (Inr _, self') \<Rightarrow> (Inr True, self')
      | (Inl e, self') \<Rightarrow>
          (case e of
             Exception msg \<Rightarrow> (Inr False, self'\<lparr>hana_last_error := Some (str_exn e)\<rparr>)
           | BaseException msg \<Rightarrow> (Inl e, self')))"

text \<open>\<^verbatim>\<open>getattr(self, '_last_error', 'Unknown error')\<close>.\<close>

definition HanaConnector_get_last_error :: "HanaConnector \<Rightarrow> string" where
  "HanaConnector_get_last_error self =
     (case hana_last_error self of None \<Rightarrow> ''Unknown error'' | Some msg \<Rightarrow> msg)"

subsection \<open>connectors/odbc.py\<close>

text \<open>The mutable part of an \<^verbatim>\<open>OdbcConnector\<close> is \<^verbatim>\<open>_connection\<close> alone.\<close>

record OdbcConnector =
  odbc_connection :: "nat option"

definition OdbcConnector_connect ::
  "driver \<Rightarrow> OdbcConnector \<Rightarrow> (exn + nat) \<times> OdbcConnector" where
  "OdbcConnector_connect drv self =
     (if \<not> installed drv
      then (Inl (Exception
             ''pyodbc is required for ODBC connections. Install with: pip install pyodbc''),
            self)
      else (case drv_connect drv of
              Inl e \<Rightarrow> (Inl e, self)
            | Inr h \<Rightarrow> (Inr h, self\<lparr>odbc_connection := Some h\<rparr>)))"

definition OdbcConnector_get_connection ::
  "driver \<Rightarrow> OdbcConnector \<Rightarrow> (exn + nat) \<times> OdbcConnector" where
  "OdbcConnector_get_connection drv self =
     (case odbc_connection self of
        None \<Rightarrow> OdbcConnector_connect drv self
      | Some h \<Rightarrow> (Inr h, self))"

text \<open>\<^verbatim>\<open>get_tables(self, catalog=None, schema=None)\<close>.\<close>

definition tables_dict :: "tables_row \<Rightarrow> pydict" where
  "tables_dict row =
     [(''Catalog'', py_or (table_cat row) (PyStr [])),
      (''Schema'', py_or (table_schem row) (PyStr [])),
      (''Table'', table_name row),
      (''Description'', py_or (remarks row) (PyStr []))]"

definition OdbcConnector_get_tables ::
  "driver \<Rightarrow> OdbcConnector \<Rightarrow> pyval \<Rightarrow> pyval \<Rightarrow> (exn + pydict list) \<times> OdbcConnector" where
  "OdbcConnector_get_tables drv self catalog schema =
     (case OdbcConnector_get_connection drv self of
        (Inl e, self') \<Rightarrow> (Inl e, self')
      | (Inr conn, self') \<Rightarrow>
          (and_then (drv_cursor drv conn) (\<lambda>_.
           and_then (drv_tables drv catalog schema) (\<lambda>tables_cursor.
           and_then (drv_close drv) (\<lambda>_. Inr (map tables_dict tables_cursor)))),
           self'))"

text \<open>\<^verbatim>\<open>get_columns(self, table, catalog=None, schema=None)\<close>.\<close>

definition columns_dict :: "columns_row \<Rightarrow> pydict" where
  "columns_dict row =
     [(''Catalog'', py_or (col_table_cat row) (PyStr [])),
      (''Schema'', py_or (col_table_schem row) (PyStr [])),
      (''Table'', col_table_name row),
      (''Column'', col_column_name row),
      (''DataType'', col_type_name row),
      (''Description'',
         py_or (case col_remarks row of None \<Rightarrow> PyStr [] | Some r \<Rightarrow> r) (PyStr []))]"

definition OdbcConnector_get_columns ::
  "driver \<Rightarrow> OdbcConnector \<Rightarrow> pyval \<Rightarrow> pyval \<Rightarrow> pyval
     \<Rightarrow> (exn + pydict list) \<times> OdbcConnector" where
  "OdbcConnector_get_columns drv self table catalog schema =
     (case OdbcConnector_get_connection drv self of
        (Inl e, self') \<Rightarrow> (Inl e, self')
      | (Inr conn, self') \<Rightarrow>
          (and_then (drv_cursor drv conn) (\<lambda>_.
           and_then (drv_columns drv table catalog schema) (\<lambda>columns_cursor.
           and_then (drv_close drv) (\<lambda>_. Inr (map columns_dict columns_cursor)))),
           self'))"

definition OdbcConnector_execute_query ::
  "driver \<Rightarrow> OdbcConnector \<Rightarrow> pystr \<Rightarrow> (exn + pydict list) \<times> OdbcConnector" where
  "OdbcConnector_execute_query drv self sql =
     (case OdbcConnector_get_connection drv self of
        (Inl e, self') \<Rightarrow> (Inl e, self')
      | (Inr conn, self') \<Rightarrow> (execute_on drv conn sql, self'))"

text \<open>\<^verbatim>\<open>test_connection\<close>: the \<^verbatim>\<open>try\<close> block, then the \<^verbatim>\<open>except Exception\<close>, which
  binds no name and stores nothing.\<close>

definition OdbcConnector_test_connection_try ::
  "driver \<Rightarrow> OdbcConnector \<Rightarrow> (exn + unit) \<times> OdbcConnector" where
  "OdbcConnector_test_connection_try drv self =
     (case OdbcConnector_get_connection drv self of
        (Inl e, self') \<Rightarrow> (Inl e, self')
      | (Inr conn, self') \<Rightarrow> (probe drv conn (cps ''SELECT 1''), self'))"

definition OdbcConnector_test_connection ::
  "driver \<Rightarrow> OdbcConnector \<Rightarrow> (exn + bool) \<times> OdbcConnector" where
  "OdbcConnector_test_connection drv self =
     (case OdbcConnector_test_connection_try drv self of
        (Inr _, self') \<Rightarrow> (Inr True, self')
      | (Inl e, self') \<Rightarrow>
          (case e of
             Exception msg \<Rightarrow> (Inr False, self')
           | BaseException msg \<Rightarrow> (Inl e, self')))"

subsection \<open>Calling a method with keyword arguments\<close>

text \<open>
  Python binds the keywords of a call to the parameters of the method. A keyword that
  names no parameter makes the call raise \<^verbatim>\<open>TypeError\<close> before the body runs; the
  first such keyword, in the order of the call, is the one reported. A parameter that
  has a default and no keyword takes \<^verbatim>\<open>None\<close>, the default of every optional parameter
  here; a parameter without default that has no keyword raises \<^verbatim>\<open>TypeError\<close> as well.
\<close>

definition unexpected_keyword :: "string list \<Rightarrow> kwargs \<Rightarrow> string option" where
  "unexpected_keyword params kw = find (\<lambda>k. k \<notin> set params) (map fst kw)"

definition OdbcConnector_call_get_tables ::
  "driver \<Rightarrow> OdbcConnector \<Rightarrow> kwargs \<Rightarrow> (exn + pydict list) \<times> OdbcConnector" where
  "OdbcConnector_call_get_tables drv self kw =
     (case unexpected_keyword [''catalog'', ''schema''] kw of
        Some k \<Rightarrow> (Inl (TypeError_unexpected ''OdbcConnector.get_tables'' k), self)
      | None \<Rightarrow>
          OdbcConnector_get_tables drv self
            (dict_get kw ''catalog'' PyNone) (dict_get kw ''schema'' PyNone))"

definition OdbcConnector_call_get_columns ::
  "driver \<Rightarrow> OdbcConnector \<Rightarrow> kwargs \<Rightarrow> (exn + pydict list) \<times> OdbcConnector" where
  "OdbcConnector_call_get_columns drv self kw =
     (case unexpected_keyword [''table'', ''catalog'', ''schema''] kw of
        Some k \<Rightarrow> (Inl (TypeError_unexpected ''OdbcConnector.get_columns'' k), self)
      | None \<Rightarrow>
          (case map_of kw ''table'' of
             None \<Rightarrow> (Inl (TypeError_missing ''OdbcConnector.get_columns'' ''table''), self)
           | Some table \<Rightarrow>
               OdbcConnector_get_columns drv self table
                 (dict_get kw ''catalog'' PyNone) (dict_get kw ''schema'' PyNone)))"

text \<open>An \<^verbatim>\<open>OdbcConnector\<close> in the hands of the tools (\<^verbatim>\<open>register_all_tools\<close>).\<close>

definition OdbcConnector_tools :: "driver \<Rightarrow> OdbcConnector \<Rightarrow> connector" where
  "OdbcConnector_tools drv self =
     \<lparr>conn_get_tables = (\<lambda>kw. fst (OdbcConnector_call_get_tables drv self kw)),
      conn_get_columns = (\<lambda>kw. fst (OdbcConnector_call_get_columns drv self kw)),
      conn_execute_query = (\<lambda>sql. fst (OdbcConnector_execute_query drv self sql))\<rparr>"

subsection \<open>The two variants behind one name\<close>

text \<open>
  \<^verbatim>\<open>create_connector\<close> returns one of the two classes, and callers dispatch on the
  object. \<^verbatim>\<open>server.create_server\<close> reads the last error only under
  \<^verbatim>\<open>hasattr(connector, 'get_last_error')\<close>: the accessor exists on a \<^verbatim>\<open>HanaConnector\<close>
  and does not exist on an \<^verbatim>\<open>OdbcConnector\<close>.
\<close>

datatype connector_object = Hana HanaConnector | Odbc OdbcConnector

fun test_connection ::
  "driver \<Rightarrow> connector_object \<Rightarrow> (exn + bool) \<times> connector_object" where
  "test_connection drv (Hana self) =
     (case HanaConnector_test_connection drv self of (ok, self') \<Rightarrow> (ok, Hana self'))"
| "test_connection drv (Odbc self) =
     (case OdbcConnector_test_connection drv self of (ok, self') \<Rightarrow> (ok, Odbc self'))"

fun get_last_error :: "connector_object \<Rightarrow> string option" where
  "get_last_error (Hana self) = Some (HanaConnector_get_last_error self)"
| "get_last_error (Odbc self) = None"

fun execute_query ::
  "driver \<Rightarrow> connector_object \<Rightarrow> pystr \<Rightarrow> (exn + pydict list) \<times> connector_object" where
  "execute_query drv (Hana self) sql =
     (case HanaConnector_execute_query drv self sql of (r, self') \<Rightarrow> (r, Hana self'))"
| "execute_query drv (Odbc self) sql =
     (case OdbcConnector_execute_query drv self sql of (r, self') \<Rightarrow> (r, Odbc self'))"

section \<open>Sample connectors and drivers\<close>

text \<open>
  Concrete collaborators on which the results below are evaluated. \<open>latin_upper_of\<close> is
  a piece of the runtime's case table: the Latin-1 letters, the sharp s, the micro sign,
  the y with diaeresis and the long s, every other code point left as it is.
  \<open>interrupted_connector\<close> is a connector whose calls are cut short by a
  \<^verbatim>\<open>KeyboardInterrupt\<close>, whose \<^verbatim>\<open>str()\<close> is empty.
\<close>

definition latin_upper_of :: "nat \<Rightarrow> pystr" where
  "latin_upper_of c =
     (if c = 223 then cps ''SS''
      else if c = 181 then [924]
      else if c = 255 then [376]
      else if c = 383 then cps ''S''
      else if 224 \<le> c \<and> c \<le> 254 \<and> c \<noteq> 247 then [c - 32]
      else [c])"

definition refusing_connector :: connector where
  "refusing_connector =
     \<lparr>conn_get_tables = (\<lambda>kw. Inl (Exception ''connection refused'')),
      conn_get_columns = (\<lambda>kw. Inl (Exception ''connection refused'')),
      conn_execute_query = (\<lambda>sql. Inl (Exception ''connection refused''))\<rparr>"


definition items_connector :: connector where
  "items_connector =
     \<lparr>conn_get_tables = (\<lambda>kw.
        Inr [[(''Schema'', PyStr ''SBO''), (''Table'', PyStr ''OITM''),
              (''Description'', PyStr ''Items'')],
             [(''Schema'', PyStr ''SBO''), (''Table'', PyStr ''ORDR''),
              (''Description'', PyStr [])]]),
      conn_get_columns = (\<lambda>kw.
        Inr [[(''Schema'', PyStr ''SBO''), (''Table'', PyStr ''OITM''),
              (''Column'', PyStr ''ItemCode''), (''DataType'', PyStr ''NVARCHAR''),
              (''Description'', PyStr [])]]),
      conn_execute_query = (\<lambda>sql.
        Inr [[(''ItemCode'', PyStr ''A1''), (''OnHand'', PyInt 7)]])\<rparr>"

definition new_HanaConnector :: HanaConnector where
  "new_HanaConnector = \<lparr>hana_connection = None, hana_last_error = None\<rparr>"

definition new_OdbcConnector :: OdbcConnector where
  "new_OdbcConnector = \<lparr>odbc_connection = None\<rparr>"

definition unreachable_driver :: driver where
  "unreachable_driver =
     \<lparr>installed = True,
      drv_connect = Inl (Exception ''Connection failed: host unreachable''),
      drv_cursor = (\<lambda>conn. Inr ()),
      drv_execute = (\<lambda>sql. Inr \<lparr>description = Some [], fetched = []\<rparr>),
      drv_fetchone = Inr (),
      drv_tables = (\<lambda>catalog schema. Inr []),
      drv_columns = (\<lambda>table catalog schema. Inr []),
      drv_close = Inr ()\<rparr>"

definition duplicate_names_driver :: driver where
  "duplicate_names_driver =
     \<lparr>installed = True,
      drv_connect = Inr 1,
      drv_cursor = (\<lambda>conn. Inr ()),
      drv_execute = (\<lambda>sql.
        Inr \<lparr>description = Some [''CODE'', ''CODE''],
             fetched = [[PyStr ''A1'', PyStr ''B2'']]\<rparr>),
      drv_fetchone = Inr (),
      drv_tables = (\<lambda>catalog schema.
        Inr [\<lparr>table_cat = PyNone, table_schem = PyStr ''dbo'', table_name = PyStr ''OITM'',
              remarks = PyNone\<rparr>]),
      drv_columns = (\<lambda>table catalog schema. Inr []),
      drv_close = Inr ()\<rparr>"

definition plain_driver :: driver where
  "plain_driver =
     \<lparr>installed = True,
      drv_connect = Inr 1,
      drv_cursor = (\<lambda>conn. Inr ()),
      drv_execute = (\<lambda>sql.
        Inr \<lparr>description = Some [''CODE'', ''NAME''],
             fetched = [[PyStr ''A1'', PyStr ''Bolt''], [PyStr ''B2'', PyNone]]\<rparr>),
      drv_fetchone = Inr (),
      drv_tables = (\<lambda>catalog schema. Inr []),
      drv_columns = (\<lambda>table catalog schema. Inr []),
      drv_close = Inr ()\<rparr>"

definition silent_driver :: driver where
  "silent_driver =
     \<lparr>installed = True,
      drv_connect = Inl (Exception []),
      drv_cursor = (\<lambda>conn. Inr ()),
      drv_execute = (\<lambda>sql. Inr \<lparr>description = Some [], fetched = []\<rparr>),
      drv_fetchone = Inr (),
      drv_tables = (\<lambda>catalog schema. Inr []),
      drv_columns = (\<lambda>table catalog schema. Inr []),
      drv_close = Inr ()\<rparr>"
section \<open>Properties of the text operations\<close>

lemma py_strip_spaces: "list_all py_isspace s \<Longrightarrow> py_strip s = []"
proof -
  assume "list_all py_isspace s"
  then have h: "dropWhile py_isspace s = []"
    by (simp add: list_all_iff)
  show ?thesis
    unfolding py_strip_def h by simp
qed

lemma find_in_set: "find P xs = Some x \<Longrightarrow> x \<in> set xs \<and> P x"
  by (induction xs) (auto split: if_splits)

lemma find_first:
  "find P xs = Some x \<Longrightarrow> \<exists>pre post. xs = pre @ x # post \<and> P x \<and> (\<forall>y\<in>set pre. \<not> P y)"
proof (induction xs)
  case Nil
  then show ?case by simp
next
  case (Cons a xs)
  show ?case
  proof (cases "P a")
    case True
    with Cons.prems have "a = x" by simp
    with True have "a # xs = [] @ x # xs \<and> P x \<and> (\<forall>y\<in>set []. \<not> P y)" by simp
    then show ?thesis by blast
  next
    case False
    with Cons.prems have "find P xs = Some x" by simp
    from Cons.IH [OF this] obtain pre post
      where "xs = pre @ x # post" "P x" "\<forall>y\<in>set pre. \<not> P y" by blast
    with False have "a # xs = (a # pre) @ x # post \<and> P x \<and> (\<forall>y\<in>set (a # pre). \<not> P y)"
      by simp
    then show ?thesis by blast
  qed
qed

lemma first_match_find:
  "xs = pre @ k # post \<Longrightarrow> P k \<Longrightarrow> \<forall>y\<in>set pre. \<not> P y \<Longrightarrow> find P xs = Some k"
  by (induction pre arbitrary: xs) auto

lemma find_None_list_ex: "(find P xs = None) = (\<not> list_ex P xs)"
  by (induction xs) auto

lemma keyword_text_neq:
  "k \<in> set dangerous_keywords \<Longrightarrow>
     ''ERROR: '' @ k @ '' statements are not allowed'' \<noteq> ''ERROR: sql parameter is required''"
  by (auto simp: dangerous_keywords_def)

lemma py_startswith_prefix: "py_startswith s p = prefix p s"
proof
  assume "py_startswith s p"
  then have "s = p @ drop (length p) s"
    by (metis append_take_drop_id py_startswith_def)
  then show "prefix p s"
    by (metis prefixI)
next
  assume "prefix p s"
  then show "py_startswith s p"
    by (auto simp: py_startswith_def prefix_def)
qed

lemma py_in_sublist: "py_in needle hay = sublist needle hay"
  by (induction hay) (simp_all add: py_startswith_prefix sublist_Cons_right)

lemma py_upper_append: "py_upper u (a @ b) = py_upper u a @ py_upper u b"
  by (simp add: py_upper_def)

lemma space_not_lower: "py_isspace c \<Longrightarrow> c < 128 \<Longrightarrow> \<not> (97 \<le> c \<and> c \<le> 122)"
  unfolding py_isspace_def by arith

lemma py_upper_cp_space: "py_isspace c \<Longrightarrow> py_upper_cp u c = [c]"
  by (simp add: py_upper_cp_def space_not_lower)

lemma py_upper_spaces: "list_all py_isspace p \<Longrightarrow> py_upper u p = p"
  by (induction p) (simp_all add: py_upper_def py_upper_cp_space)

lemma py_strip_decompose:
  "\<exists>pre post. s = pre @ py_strip s @ post \<and> list_all py_isspace pre \<and> list_all py_isspace post"
proof -
  let ?d = "dropWhile py_isspace s"
  let ?pre = "takeWhile py_isspace s"
  let ?post = "rev (takeWhile py_isspace (rev ?d))"
  have "py_strip s @ ?post
      = rev (takeWhile py_isspace (rev ?d) @ dropWhile py_isspace (rev ?d))"
    by (simp only: py_strip_def rev_append)
  also have "\<dots> = rev (rev ?d)"
    by (simp only: takeWhile_dropWhile_id)
  finally have "?d = py_strip s @ ?post"
    by simp
  moreover have "s = ?pre @ ?d"
    by simp
  ultimately have "s = ?pre @ py_strip s @ ?post"
    by simp
  moreover have "list_all py_isspace ?pre"
    by (simp add: list_all_iff) (meson set_takeWhileD)
  moreover have "list_all py_isspace ?post"
    by (simp add: list_all_iff) (meson set_takeWhileD)
  ultimately show ?thesis by blast
qed

lemma sublist_skip_prefix:
  "list_all P pre \<Longrightarrow> w \<noteq> [] \<Longrightarrow> \<not> P (hd w) \<Longrightarrow> sublist w (pre @ t) = sublist w t"
proof (induction pre)
  case Nil
  then show ?case by simp
next
  case (Cons c pre)
  from Cons.prems have "\<not> prefix w (c # pre @ t)"
    by (cases w) auto
  with Cons show ?case
    by (simp add: sublist_Cons_right)
qed

lemma sublist_rev_right: "sublist w (rev t) = sublist (rev w) t"
  using sublist_rev [of "rev w" t] by simp

lemma sublist_skip_suffix:
  assumes "list_all P post" "w \<noteq> []" "\<not> P (last w)"
  shows "sublist w (t @ post) = sublist w t"
proof -
  have "sublist w (t @ post) = sublist (rev w) (rev post @ rev t)"
    using sublist_rev [of w "t @ post"] by simp
  also have "\<dots> = sublist (rev w) (rev t)"
    using assms
    by (intro sublist_skip_prefix [of P "rev post" "rev w" "rev t"])
       (simp_all add: hd_rev list_all_iff)
  also have "\<dots> = sublist w t"
    by (rule sublist_rev)
  finally show ?thesis .
qed

lemma py_in_upper_strip:
  assumes "w \<noteq> []" "\<not> py_isspace (hd w)" "\<not> py_isspace (last w)"
  shows "py_in w (py_upper u (py_strip s)) = py_in w (py_upper u s)"
proof -
  from py_strip_decompose [of s] obtain pre post
    where s: "s = pre @ py_strip s @ post"
      and pre: "list_all py_isspace pre" and post: "list_all py_isspace post"
    by blast
  have "py_upper u s = py_upper u (pre @ py_strip s @ post)"
    using s by simp
  also have "\<dots> = pre @ py_upper u (py_strip s) @ post"
    by (simp add: py_upper_append py_upper_spaces pre post)
  finally have "sublist w (py_upper u s) = sublist w (pre @ py_upper u (py_strip s) @ post)"
    by simp
  also have "\<dots> = sublist w (py_upper u (py_strip s) @ post)"
    by (rule sublist_skip_prefix [OF pre assms(1,2)])
  also have "\<dots> = sublist w (py_upper u (py_strip s))"
    by (rule sublist_skip_suffix [OF post assms(1,3)])
  finally show ?thesis
    by (simp add: py_in_sublist)
qed

lemma py_in_LIMIT_strip:
  "py_in (cps ''LIMIT'') (py_upper u (py_strip s)) = py_in (cps ''LIMIT'') (py_upper u s)"
  by (rule py_in_upper_strip) (simp_all add: cps_def py_isspace_def)

lemma py_in_TOP_strip:
  "py_in (cps ''TOP'') (py_upper u (py_strip s)) = py_in (cps ''TOP'') (py_upper u s)"
  by (rule py_in_upper_strip) (simp_all add: cps_def py_isspace_def)

lemma csv_writerow_head: "\<exists>c rest. csv_writerow vals = c # rest \<and> (c = CHR 0x22 \<or> c = CHR 0x0D)"
proof (cases vals)
  case Nil
  then show ?thesis by (simp add: csv_writerow_def)
next
  case (Cons f fs)
  then show ?thesis
    by (cases fs) (simp_all add: csv_writerow_def csv_quote_def)
qed

lemma to_csv_head:
  "rows \<noteq> [] \<Longrightarrow> \<exists>c rest. to_csv rows columns = c # rest \<and> (c = CHR 0x22 \<or> c = CHR 0x0D)"
proof -
  assume "rows \<noteq> []"
  then obtain r rs where r: "rows = r # rs" by (cases rows) auto
  obtain cols where "to_csv rows columns = csv_writerow (map PyStr cols) @ concat (map (DictWriter_writerow cols) rows)"
    using r by (auto simp: to_csv_def Let_def DictWriter_writeheader_def)
  moreover obtain c rest where "csv_writerow (map PyStr cols) = c # rest" "c = CHR 0x22 \<or> c = CHR 0x0D"
    using csv_writerow_head by blast
  ultimately show ?thesis by simp
qed

lemma to_csv_no_note: "rows \<noteq> [] \<Longrightarrow> \<not> py_startswith (to_csv rows columns) limit_note"
proof -
  assume "rows \<noteq> []"
  from to_csv_head [OF this] obtain c rest
    where "to_csv rows columns = c # rest" "c = CHR 0x22 \<or> c = CHR 0x0D" by blast
  then show ?thesis
    by (auto simp: py_startswith_def limit_note_def)
qed

section \<open>The run-query handler\<close>


text \<open>
  Claim C9, as the spec states it, says that a missing \<^verbatim>\<open>table\<close> or \<^verbatim>\<open>sql\<close> argument
  is answered with the error text. Both parameters are declared without default, so a
  call that leaves the argument out raises \<^verbatim>\<open>TypeError\<close> before the body with its
  check is reached.
\<close>

theorem missing_argument_counterexample:
  "call_run_query latin_upper_of refusing_connector None
     = (Inl (TypeError_missing ''register_run_query_tool.<locals>.run_query'' ''sql''), [])
   \<and> fst (call_run_query latin_upper_of refusing_connector None)
     \<noteq> Inr ''ERROR: sql parameter is required''
   \<and> call_get_columns refusing_connector None None None
     = (Inl (TypeError_missing ''register_get_columns_tool.<locals>.get_columns'' ''table''), [])
   \<and> fst (call_get_columns refusing_connector None None None)
     \<noteq> Inr ''ERROR: table parameter is required''"
  by (simp add: call_run_query_def call_get_columns_def)

text \<open>
  Claim C9, amended. Required arguments are checked before any backend interaction:
  when the \<^verbatim>\<open>table\<close> argument of the list-columns handler is empty, the result is
  exactly \<^verbatim>\<open>ERROR: table parameter is required\<close> and no connector call is made; when
  the \<^verbatim>\<open>sql\<close> argument of the run-query handler is empty, the result is exactly
  \<^verbatim>\<open>ERROR: sql parameter is required\<close> and no connector call is made. A call that
  leaves the argument out raises before the body runs, again without any connector call.
  This holds for every connector and every value of the other arguments.
\<close>

theorem required_arguments_precede_backend:
  "get_columns connector [] catalog schema = (Inr ''ERROR: table parameter is required'', [])
   \<and> call_get_columns connector (Some []) catalog schema
     = (Inr ''ERROR: table parameter is required'', [])
   \<and> run_query upper_of connector [] = (Inr ''ERROR: sql parameter is required'', [])
   \<and> call_run_query upper_of connector (Some [])
     = (Inr ''ERROR: sql parameter is required'', [])
   \<and> call_get_columns connector None catalog schema
     = (Inl (TypeError_missing ''register_get_columns_tool.<locals>.get_columns'' ''table''), [])
   \<and> call_run_query upper_of connector None
     = (Inl (TypeError_missing ''register_run_query_tool.<locals>.run_query'' ''sql''), [])"
  by (simp add: get_columns_def run_query_def call_get_columns_def call_run_query_def)

theorem required_arguments_precede_backend_witness:
  "get_columns refusing_connector [] None (Some ''SBO'')
     = (Inr ''ERROR: table parameter is required'', [])
   \<and> run_query latin_upper_of refusing_connector []
     = (Inr ''ERROR: sql parameter is required'', [])"
  using required_arguments_precede_backend
          [of refusing_connector None "Some ''SBO''" latin_upper_of]
  by simp

text \<open>
  Claim C10. A non-empty \<^verbatim>\<open>sql\<close> made of whitespace only, in the sense of
  \<^verbatim>\<open>str.isspace\<close> over all of Unicode, is present: it fails the SELECT-prefix check and
  the handler answers \<^verbatim>\<open>ERROR: Only SELECT statements are allowed\<close> without calling the
  connector. The missing-parameter answer (that text, with no connector call) is
  produced exactly when \<^verbatim>\<open>sql\<close> is the empty string.
\<close>

theorem whitespace_sql_is_present:
  "(sql \<noteq> [] \<and> list_all py_isspace sql \<longrightarrow>
      run_query upper_of connector sql
        = (Inr ''ERROR: Only SELECT statements are allowed'', []))
   \<and> ((run_query upper_of connector sql = (Inr ''ERROR: sql parameter is required'', []))
       = (sql = []))"
proof (intro conjI impI)
  assume "sql \<noteq> [] \<and> list_all py_isspace sql"
  then show "run_query upper_of connector sql
      = (Inr ''ERROR: Only SELECT statements are allowed'', [])"
    by (simp add: run_query_def py_strip_spaces py_upper_def py_startswith_def cps_def)
next
  show "(run_query upper_of connector sql = (Inr ''ERROR: sql parameter is required'', []))
      = (sql = [])"
  proof (cases "sql = []")
    case True
    then show ?thesis by (simp add: run_query_def)
  next
    case False
    have "run_query upper_of connector sql \<noteq> (Inr ''ERROR: sql parameter is required'', [])"
      using False
      by (auto simp: run_query_def Let_def run_query_checked_def keyword_text_neq
               split: option.splits dest!: find_in_set)
    with False show ?thesis by simp
  qed
qed

theorem whitespace_sql_is_present_witness:
  "[160, 32, 9, 12288] \<noteq> [] \<and> list_all py_isspace [160, 32, 9, 12288]
   \<and> run_query latin_upper_of items_connector [160, 32, 9, 12288]
     = (Inr ''ERROR: Only SELECT statements are allowed'', [])
   \<and> run_query latin_upper_of items_connector [160, 32, 9, 12288]
     \<noteq> (Inr ''ERROR: sql parameter is required'', [])"
proof -
  have h: "[160, 32, 9, 12288] \<noteq> [] \<and> list_all py_isspace [160, 32, 9, 12288]"
    by (simp add: py_isspace_def)
  note w = whitespace_sql_is_present [of "[160, 32, 9, 12288]" latin_upper_of items_connector]
  from w [THEN conjunct1, THEN mp, OF h] w [THEN conjunct2] h show ?thesis
    by simp
qed

text \<open>
  Claim C1, as the spec states it, says that every \<^verbatim>\<open>sql\<close> whose trimmed, upper-cased
  form does not begin with \<^verbatim>\<open>SELECT\<close> is answered with
  \<^verbatim>\<open>ERROR: Only SELECT statements are allowed\<close>. The empty string is such a statement,
  and the required-argument check answers it first, with another text.
\<close>

theorem empty_sql_counterexample:
  "\<not> py_startswith (py_upper latin_upper_of (py_strip [])) (cps ''SELECT'')
   \<and> fst (run_query latin_upper_of refusing_connector [])
     \<noteq> Inr ''ERROR: Only SELECT statements are allowed''"
  by (simp add: run_query_def py_strip_def py_upper_def py_startswith_def cps_def)

text \<open>
  Claim C1, amended. For every non-empty \<^verbatim>\<open>sql\<close>, whatever its characters and whatever
  the case table of the runtime: when its trimmed, upper-cased form does not begin with
  \<^verbatim>\<open>SELECT\<close>, the result is exactly \<^verbatim>\<open>ERROR: Only SELECT statements are allowed\<close>,
  whatever keywords it contains, and the connector is not called; when that form begins
  with \<^verbatim>\<open>SELECT\<close> and contains one of INSERT, UPDATE, DELETE, DROP, CREATE, ALTER,
  TRUNCATE as a substring, the result is \<^verbatim>\<open>ERROR: <keyword> statements are not allowed\<close>
  for the first keyword of that list, in that order, that occurs in it, and the connector
  is not called.
\<close>

theorem run_query_guards:
  assumes "sql \<noteq> []"
  shows "(\<not> py_startswith (py_upper upper_of (py_strip sql)) (cps ''SELECT'') \<longrightarrow>
            run_query upper_of connector sql
              = (Inr ''ERROR: Only SELECT statements are allowed'', []))
       \<and> (py_startswith (py_upper upper_of (py_strip sql)) (cps ''SELECT'')
            \<and> list_ex (\<lambda>k. py_in (cps k) (py_upper upper_of (py_strip sql)))
                 [''INSERT'', ''UPDATE'', ''DELETE'', ''DROP'', ''CREATE'', ''ALTER'', ''TRUNCATE'']
          \<longrightarrow> (\<exists>pre k post.
                 [''INSERT'', ''UPDATE'', ''DELETE'', ''DROP'', ''CREATE'', ''ALTER'', ''TRUNCATE'']
                   = pre @ k # post
                 \<and> py_in (cps k) (py_upper upper_of (py_strip sql))
                 \<and> (\<forall>k'\<in>set pre. \<not> py_in (cps k') (py_upper upper_of (py_strip sql)))
                 \<and> run_query upper_of connector sql
                     = (Inr (''ERROR: '' @ k @ '' statements are not allowed''), [])))"
proof (intro conjI impI)
  assume "\<not> py_startswith (py_upper upper_of (py_strip sql)) (cps ''SELECT'')"
  with assms show "run_query upper_of connector sql
      = (Inr ''ERROR: Only SELECT statements are allowed'', [])"
    by (simp add: run_query_def)
next
  let ?su = "py_upper upper_of (py_strip sql)"
  let ?kws = "[''INSERT'', ''UPDATE'', ''DELETE'', ''DROP'', ''CREATE'', ''ALTER'', ''TRUNCATE'']"
  assume h: "py_startswith ?su (cps ''SELECT'') \<and> list_ex (\<lambda>k. py_in (cps k) ?su) ?kws"
  then have "find (\<lambda>k. py_in (cps k) ?su) ?kws \<noteq> None"
    by (simp only: find_None_list_ex) simp
  then obtain k where k: "find (\<lambda>k. py_in (cps k) ?su) ?kws = Some k"
    by blast
  from find_first [OF k] obtain pre post
    where d: "?kws = pre @ k # post" "py_in (cps k) ?su" "\<forall>y\<in>set pre. \<not> py_in (cps y) ?su"
    by blast
  have "run_query upper_of connector sql
      = (Inr (''ERROR: '' @ k @ '' statements are not allowed''), [])"
    using assms h k by (simp add: run_query_def dangerous_keywords_def)
  with d show "\<exists>pre k post. ?kws = pre @ k # post \<and> py_in (cps k) ?su
      \<and> (\<forall>k'\<in>set pre. \<not> py_in (cps k') ?su)
      \<and> run_query upper_of connector sql
          = (Inr (''ERROR: '' @ k @ '' statements are not allowed''), [])"
    by blast
qed

theorem run_query_guards_witness:
  "run_query latin_upper_of items_connector (cps ''DROP TABLE X'')
     = (Inr ''ERROR: Only SELECT statements are allowed'', [])
   \<and> run_query latin_upper_of items_connector
        (160 # cps ''select * from T; delete from T; drop table T'')
     = (Inr ''ERROR: DELETE statements are not allowed'', [])"
proof
  have n: "cps ''DROP TABLE X'' \<noteq> []"
    by (simp add: cps_def)
  have g: "\<not> py_startswith (py_upper latin_upper_of (py_strip (cps ''DROP TABLE X'')))
      (cps ''SELECT'')"
    by (simp add: cps_def py_upper_def py_strip_def py_isspace_def py_upper_cp_def
          py_startswith_def)
  from run_query_guards [OF n, of latin_upper_of items_connector, THEN conjunct1, THEN mp, OF g]
  show "run_query latin_upper_of items_connector (cps ''DROP TABLE X'')
      = (Inr ''ERROR: Only SELECT statements are allowed'', [])" .
next
  let ?sql = "160 # cps ''select * from T; delete from T; drop table T''"
  let ?su = "cps ''SELECT * FROM T; DELETE FROM T; DROP TABLE T''"
  have n: "?sql \<noteq> []"
    by simp
  have su: "py_upper latin_upper_of (py_strip ?sql) = ?su"
    by (simp add: cps_def py_upper_def py_strip_def py_isspace_def py_upper_cp_def)
  have p: "py_startswith ?su (cps ''SELECT'')"
    by (simp add: py_startswith_def cps_def)
  have i: "\<not> py_in (cps ''INSERT'') ?su" "\<not> py_in (cps ''UPDATE'') ?su"
      "py_in (cps ''DELETE'') ?su"
    by (simp_all add: py_startswith_def cps_def)
  have h: "py_startswith (py_upper latin_upper_of (py_strip ?sql)) (cps ''SELECT'')
      \<and> list_ex (\<lambda>k. py_in (cps k) (py_upper latin_upper_of (py_strip ?sql)))
            [''INSERT'', ''UPDATE'', ''DELETE'', ''DROP'', ''CREATE'', ''ALTER'', ''TRUNCATE'']"
    unfolding su using p i by (simp del: py_in.simps)
  from run_query_guards [OF n, of latin_upper_of items_connector, THEN conjunct2, THEN mp, OF h]
  obtain pre k post where
    d: "[''INSERT'', ''UPDATE'', ''DELETE'', ''DROP'', ''CREATE'', ''ALTER'', ''TRUNCATE'']
          = pre @ k # post"
    and k: "py_in (cps k) ?su" and m: "\<forall>k'\<in>set pre. \<not> py_in (cps k') ?su"
    and r: "run_query latin_upper_of items_connector ?sql
              = (Inr (''ERROR: '' @ k @ '' statements are not allowed''), [])"
    unfolding su by (elim exE conjE)
  from first_match_find [of _ pre k post "\<lambda>k. py_in (cps k) ?su", OF d k m] i
  have "k = ''DELETE''"
    by (simp del: py_in.simps)
  with r show "run_query latin_upper_of items_connector ?sql
      = (Inr ''ERROR: DELETE statements are not allowed'', [])"
    by simp
qed

text \<open>
  Claim C2. For every \<^verbatim>\<open>sql\<close> that passes the SELECT-prefix and denylist guards: when
  its upper-cased form contains neither \<^verbatim>\<open>LIMIT\<close> nor \<^verbatim>\<open>TOP\<close>, the one statement sent to
  the connector's \<^verbatim>\<open>execute_query\<close> is the original text followed by \<^verbatim>\<open> LIMIT 50\<close>, and
  on a non-empty row set the response is the row-cap note, a blank line, and the formatted
  table. When \<^verbatim>\<open>LIMIT\<close> or \<^verbatim>\<open>TOP\<close> occurs, the statement is sent unchanged, the response
  never begins with the note, and on a non-empty row set it is the formatted table alone.
\<close>

theorem run_query_row_cap:
  assumes "py_startswith (py_upper upper_of (py_strip sql)) (cps ''SELECT'')"
    and "\<not> list_ex (\<lambda>k. py_in (cps k) (py_upper upper_of (py_strip sql))) dangerous_keywords"
  shows "(\<not> py_in (cps ''LIMIT'') (py_upper upper_of sql)
            \<and> \<not> py_in (cps ''TOP'') (py_upper upper_of sql) \<longrightarrow>
            snd (run_query upper_of connector sql)
              = [Call_execute_query (sql @ cps '' LIMIT 50'')]
          \<and> (\<forall>rows. conn_execute_query connector (sql @ cps '' LIMIT 50'') = Inr rows
                  \<and> rows \<noteq> []
                \<longrightarrow> fst (run_query upper_of connector sql)
                      = Inr (limit_note @ [CHR 0x0A, CHR 0x0A] @ to_csv rows None)))
       \<and> (py_in (cps ''LIMIT'') (py_upper upper_of sql)
            \<or> py_in (cps ''TOP'') (py_upper upper_of sql) \<longrightarrow>
            snd (run_query upper_of connector sql) = [Call_execute_query sql]
          \<and> (\<forall>text. fst (run_query upper_of connector sql) = Inr text
                \<longrightarrow> \<not> py_startswith text limit_note)
          \<and> (\<forall>rows. conn_execute_query connector sql = Inr rows \<and> rows \<noteq> []
                \<longrightarrow> fst (run_query upper_of connector sql) = Inr (to_csv rows None)))"
proof -
  let ?su = "py_upper upper_of (py_strip sql)"
  from assms(1) have ne: "sql \<noteq> []"
    by (auto simp: py_startswith_def py_strip_def py_upper_def cps_def)
  from assms(2) have f: "find (\<lambda>k. py_in (cps k) ?su) dangerous_keywords = None"
    by (simp add: find_None_list_ex)
  have rq: "run_query upper_of connector sql = run_query_checked connector sql ?su"
    using ne assms(1) f by (simp add: run_query_def)
  show ?thesis
  proof (intro conjI impI allI)
    assume a: "\<not> py_in (cps ''LIMIT'') (py_upper upper_of sql)
        \<and> \<not> py_in (cps ''TOP'') (py_upper upper_of sql)"
    then have la: "\<not> py_in (cps ''LIMIT'') ?su \<and> \<not> py_in (cps ''TOP'') ?su"
      by (simp add: py_in_LIMIT_strip py_in_TOP_strip)
    have rc: "run_query_checked connector sql ?su =
        (except_Exception
           (and_then (conn_execute_query connector (sql @ cps '' LIMIT 50'')) (\<lambda>rows.
              Inr (if rows = [] then ''Query returned no results.''
                   else limit_note @ [CHR 0x0A, CHR 0x0A] @ to_csv rows None))),
         [Call_execute_query (sql @ cps '' LIMIT 50'')])"
      unfolding run_query_checked_def Let_def if_P [OF la] ..
    show "snd (run_query upper_of connector sql) = [Call_execute_query (sql @ cps '' LIMIT 50'')]"
      by (simp add: rq rc)
    fix rows
    assume "conn_execute_query connector (sql @ cps '' LIMIT 50'') = Inr rows \<and> rows \<noteq> []"
    then show "fst (run_query upper_of connector sql)
        = Inr (limit_note @ [CHR 0x0A, CHR 0x0A] @ to_csv rows None)"
      by (simp add: rq rc and_then_def except_Exception_def)
  next
    assume a: "py_in (cps ''LIMIT'') (py_upper upper_of sql)
        \<or> py_in (cps ''TOP'') (py_upper upper_of sql)"
    then have la: "\<not> (\<not> py_in (cps ''LIMIT'') ?su \<and> \<not> py_in (cps ''TOP'') ?su)"
      by (simp add: py_in_LIMIT_strip py_in_TOP_strip)
    have rc: "run_query_checked connector sql ?su =
        (except_Exception
           (and_then (conn_execute_query connector sql) (\<lambda>rows.
              Inr (if rows = [] then ''Query returned no results.'' else to_csv rows None))),
         [Call_execute_query sql])"
      unfolding run_query_checked_def Let_def if_not_P [OF la] ..
    show "snd (run_query upper_of connector sql) = [Call_execute_query sql]"
      by (simp add: rq rc)
    show "\<not> py_startswith answer limit_note"
      if t: "fst (run_query upper_of connector sql) = Inr answer" for answer
    proof (cases "conn_execute_query connector sql")
      case (Inl e)
      with t show ?thesis
        by (cases e)
           (simp_all add: rq rc and_then_def except_Exception_def, 
            auto simp: py_startswith_def limit_note_def)
    next
      case (Inr rows)
      show ?thesis
      proof (cases "rows = []")
        case True
        with Inr t show ?thesis
          by (simp add: rq rc and_then_def except_Exception_def)
             (auto simp: py_startswith_def limit_note_def)
      next
        case False
        with Inr t have "answer = to_csv rows None"
          by (simp add: rq rc and_then_def except_Exception_def)
        with to_csv_no_note [OF False] show ?thesis
          by simp
      qed
    qed
    fix rows
    assume "conn_execute_query connector sql = Inr rows \<and> rows \<noteq> []"
    then show "fst (run_query upper_of connector sql) = Inr (to_csv rows None)"
      by (simp add: rq rc and_then_def except_Exception_def)
  qed
qed

theorem run_query_row_cap_witness:
  "snd (run_query latin_upper_of items_connector (160 # cps ''select * from OITM''))
     = [Call_execute_query (160 # cps ''select * from OITM LIMIT 50'')]
   \<and> fst (run_query latin_upper_of items_connector (160 # cps ''select * from OITM''))
     = Inr (limit_note @ [CHR 0x0A, CHR 0x0A]
              @ to_csv [[(''ItemCode'', PyStr ''A1''), (''OnHand'', PyInt 7)]] None)
   \<and> snd (run_query latin_upper_of items_connector (cps ''select top 5 * from OITM''))
     = [Call_execute_query (cps ''select top 5 * from OITM'')]
   \<and> fst (run_query latin_upper_of items_connector (cps ''select top 5 * from OITM''))
     = Inr (to_csv [[(''ItemCode'', PyStr ''A1''), (''OnHand'', PyInt 7)]] None)"
proof -
  let ?a = "160 # cps ''select * from OITM''" and ?b = "cps ''select top 5 * from OITM''"
  let ?rows = "[[(''ItemCode'', PyStr ''A1''), (''OnHand'', PyInt 7)]]"
  have ua: "py_upper latin_upper_of (py_strip ?a) = cps ''SELECT * FROM OITM''"
    and ua': "py_upper latin_upper_of ?a = 160 # cps ''SELECT * FROM OITM''"
    and ub: "py_upper latin_upper_of (py_strip ?b) = cps ''SELECT TOP 5 * FROM OITM''"
            "py_upper latin_upper_of ?b = cps ''SELECT TOP 5 * FROM OITM''"
    by (simp_all add: cps_def py_upper_def py_strip_def py_isspace_def py_upper_cp_def)
  have ga: "py_startswith (py_upper latin_upper_of (py_strip ?a)) (cps ''SELECT'')"
    and gb: "py_startswith (py_upper latin_upper_of (py_strip ?b)) (cps ''SELECT'')"
    unfolding ua ub by (simp_all add: py_startswith_def cps_def)
  have da: "\<not> list_ex (\<lambda>k. py_in (cps k) (py_upper latin_upper_of (py_strip ?a)))
      dangerous_keywords"
    and db: "\<not> list_ex (\<lambda>k. py_in (cps k) (py_upper latin_upper_of (py_strip ?b)))
      dangerous_keywords"
    unfolding ua ub by (simp_all add: dangerous_keywords_def py_startswith_def cps_def)
  have la: "\<not> py_in (cps ''LIMIT'') (py_upper latin_upper_of ?a)
      \<and> \<not> py_in (cps ''TOP'') (py_upper latin_upper_of ?a)"
    and lb: "py_in (cps ''LIMIT'') (py_upper latin_upper_of ?b)
      \<or> py_in (cps ''TOP'') (py_upper latin_upper_of ?b)"
    unfolding ua' ub by (simp_all add: py_startswith_def cps_def)
  have ea: "conn_execute_query items_connector (?a @ cps '' LIMIT 50'') = Inr ?rows \<and> ?rows \<noteq> []"
    and eb: "conn_execute_query items_connector ?b = Inr ?rows \<and> ?rows \<noteq> []"
    by (simp_all add: items_connector_def)
  note A = run_query_row_cap [OF ga da, of items_connector, THEN conjunct1, THEN mp, OF la]
  note B = run_query_row_cap [OF gb db, of items_connector, THEN conjunct2, THEN mp, OF lb]
  have "snd (run_query latin_upper_of items_connector ?a)
      = [Call_execute_query (?a @ cps '' LIMIT 50'')]"
    by (rule A [THEN conjunct1])
  moreover have "fst (run_query latin_upper_of items_connector ?a)
      = Inr (limit_note @ [CHR 0x0A, CHR 0x0A] @ to_csv ?rows None)"
    by (rule A [THEN conjunct2, THEN spec, THEN mp, OF ea])
  moreover have "snd (run_query latin_upper_of items_connector ?b) = [Call_execute_query ?b]"
    by (rule B [THEN conjunct1])
  moreover have "fst (run_query latin_upper_of items_connector ?b) = Inr (to_csv ?rows None)"
    by (rule B [THEN conjunct2, THEN conjunct2, THEN spec, THEN mp, OF eb])
  ultimately show ?thesis
    by (simp add: cps_def)
qed

section \<open>The error boundary and the column sets of the handlers\<close>

lemma py_startswith_append: "py_startswith (p @ r) p"
  by (simp add: py_startswith_def)

lemma to_csv_header:
  "rows \<noteq> [] \<Longrightarrow> py_startswith (to_csv rows (Some cols)) (DictWriter_writeheader cols)"
  by (cases rows) (simp_all add: to_csv_def py_startswith_append)

lemma any_get_iff: "any_get key records = (\<exists>t\<in>set records. py_truthy (dict_get t key PyNone))"
  by (simp add: any_get_def list_ex_iff)

lemma optional_columns_shape:
  "cols = (if A then [''Catalog''] else []) @ (if B then [''Schema''] else []) @ rest
   \<Longrightarrow> ''Catalog'' \<notin> set rest \<Longrightarrow> ''Schema'' \<notin> set rest
   \<Longrightarrow> (''Catalog'' \<in> set cols) = A \<and> (''Schema'' \<in> set cols) = B"
  by simp





text \<open>
  Claim C7. For the list-tables and list-columns handlers and every non-empty batch
  returned by the connector: the output is the table formatted over a column list whose
  header opens the text; that list has the Catalog column exactly when some record of
  the batch has a non-empty Catalog value, and the Schema column exactly when some
  record has a non-empty Schema value; the fixed columns (Table, Description, or Table,
  Column, DataType, Description) are always present and come after them. A value is
  non-empty when Python takes it for true: a string other than the empty one; \<^verbatim>\<open>None\<close>,
  the empty string and an absent key are empty.
\<close>

theorem metadata_columns_follow_the_data:
  "(snd (get_tables connector catalog schema search limit) = [Call_get_tables kw]
      \<and> conn_get_tables connector kw = Inr tables \<and> tables \<noteq> []
    \<longrightarrow> (\<exists>cols. fst (get_tables connector catalog schema search limit)
                  = Inr (to_csv tables (Some cols))
          \<and> py_startswith (to_csv tables (Some cols)) (DictWriter_writeheader cols)
          \<and> ((''Catalog'' \<in> set cols)
               = (\<exists>t\<in>set tables. py_truthy (dict_get t ''Catalog'' PyNone)))
          \<and> ((''Schema'' \<in> set cols)
               = (\<exists>t\<in>set tables. py_truthy (dict_get t ''Schema'' PyNone)))
          \<and> cols = (if ''Catalog'' \<in> set cols then [''Catalog''] else [])
                     @ (if ''Schema'' \<in> set cols then [''Schema''] else [])
                     @ [''Table'', ''Description'']))
   \<and> (snd (get_columns connector table catalog schema) = [Call_get_columns kw']
      \<and> conn_get_columns connector kw' = Inr columns \<and> columns \<noteq> []
    \<longrightarrow> (\<exists>cols. fst (get_columns connector table catalog schema)
                  = Inr (to_csv columns (Some cols))
          \<and> py_startswith (to_csv columns (Some cols)) (DictWriter_writeheader cols)
          \<and> ((''Catalog'' \<in> set cols)
               = (\<exists>c\<in>set columns. py_truthy (dict_get c ''Catalog'' PyNone)))
          \<and> ((''Schema'' \<in> set cols)
               = (\<exists>c\<in>set columns. py_truthy (dict_get c ''Schema'' PyNone)))
          \<and> cols = (if ''Catalog'' \<in> set cols then [''Catalog''] else [])
                     @ (if ''Schema'' \<in> set cols then [''Schema''] else [])
                     @ [''Table'', ''Column'', ''DataType'', ''Description'']))"
proof (intro conjI impI)
  assume a: "snd (get_tables connector catalog schema search limit) = [Call_get_tables kw]
      \<and> conn_get_tables connector kw = Inr tables \<and> tables \<noteq> []"
  define cols where "cols = (if any_get ''Catalog'' tables then [''Catalog''] else [])
      @ (if any_get ''Schema'' tables then [''Schema''] else []) @ [''Table'', ''Description'']"
  have kw: "kw = [(''catalog'', py_opt catalog), (''schema'', py_opt schema),
                  (''search'', py_opt search), (''limit'', PyInt limit)]"
    using a by (simp add: get_tables_def Let_def)
  have r: "fst (get_tables connector catalog schema search limit)
      = Inr (to_csv tables (Some cols))"
    using a unfolding kw
    by (simp add: get_tables_def Let_def cols_def and_then_def except_Exception_def)
  have h: "py_startswith (to_csv tables (Some cols)) (DictWriter_writeheader cols)"
    using a by (simp add: to_csv_header)
  have m: "(''Catalog'' \<in> set cols) = any_get ''Catalog'' tables
      \<and> (''Schema'' \<in> set cols) = any_get ''Schema'' tables"
    by (rule optional_columns_shape [OF cols_def]) simp_all
  have o: "cols = (if ''Catalog'' \<in> set cols then [''Catalog''] else [])
      @ (if ''Schema'' \<in> set cols then [''Schema''] else []) @ [''Table'', ''Description'']"
    unfolding m [THEN conjunct1] m [THEN conjunct2] by (rule cols_def)
  show "\<exists>cols. fst (get_tables connector catalog schema search limit)
        = Inr (to_csv tables (Some cols))
      \<and> py_startswith (to_csv tables (Some cols)) (DictWriter_writeheader cols)
      \<and> ((''Catalog'' \<in> set cols) = (\<exists>t\<in>set tables. py_truthy (dict_get t ''Catalog'' PyNone)))
      \<and> ((''Schema'' \<in> set cols) = (\<exists>t\<in>set tables. py_truthy (dict_get t ''Schema'' PyNone)))
      \<and> cols = (if ''Catalog'' \<in> set cols then [''Catalog''] else [])
                 @ (if ''Schema'' \<in> set cols then [''Schema''] else [])
                 @ [''Table'', ''Description'']"
    by (intro exI [of _ cols] conjI r h o m [THEN conjunct1, unfolded any_get_iff]
          m [THEN conjunct2, unfolded any_get_iff])
next
  assume a: "snd (get_columns connector table catalog schema) = [Call_get_columns kw']
      \<and> conn_get_columns connector kw' = Inr columns \<and> columns \<noteq> []"
  define cols where "cols = (if any_get ''Catalog'' columns then [''Catalog''] else [])
      @ (if any_get ''Schema'' columns then [''Schema''] else [])
      @ [''Table'', ''Column'', ''DataType'', ''Description'']"
  from a have t: "table \<noteq> []"
    by (auto simp: get_columns_def split: if_splits)
  have kw: "kw' = [(''table'', PyStr table), (''catalog'', py_opt catalog),
                   (''schema'', py_opt schema)]"
    using a t by (simp add: get_columns_def Let_def)
  have r: "fst (get_columns connector table catalog schema)
      = Inr (to_csv columns (Some cols))"
    using a t unfolding kw
    by (simp add: get_columns_def Let_def cols_def and_then_def except_Exception_def)
  have h: "py_startswith (to_csv columns (Some cols)) (DictWriter_writeheader cols)"
    using a by (simp add: to_csv_header)
  have m: "(''Catalog'' \<in> set cols) = any_get ''Catalog'' columns
      \<and> (''Schema'' \<in> set cols) = any_get ''Schema'' columns"
    by (rule optional_columns_shape [OF cols_def]) simp_all
  have o: "cols = (if ''Catalog'' \<in> set cols then [''Catalog''] else [])
      @ (if ''Schema'' \<in> set cols then [''Schema''] else [])
      @ [''Table'', ''Column'', ''DataType'', ''Description'']"
    unfolding m [THEN conjunct1] m [THEN conjunct2] by (rule cols_def)
  show "\<exists>cols. fst (get_columns connector table catalog schema)
        = Inr (to_csv columns (Some cols))
      \<and> py_startswith (to_csv columns (Some cols)) (DictWriter_writeheader cols)
      \<and> ((''Catalog'' \<in> set cols) = (\<exists>c\<in>set columns. py_truthy (dict_get c ''Catalog'' PyNone)))
      \<and> ((''Schema'' \<in> set cols) = (\<exists>c\<in>set columns. py_truthy (dict_get c ''Schema'' PyNone)))
      \<and> cols = (if ''Catalog'' \<in> set cols then [''Catalog''] else [])
                 @ (if ''Schema'' \<in> set cols then [''Schema''] else [])
                 @ [''Table'', ''Column'', ''DataType'', ''Description'']"
    by (intro exI [of _ cols] conjI r h o m [THEN conjunct1, unfolded any_get_iff]
          m [THEN conjunct2, unfolded any_get_iff])
qed

theorem metadata_columns_follow_the_data_witness:
  "fst (get_tables items_connector None None None 50)
     = Inr (to_csv [[(''Schema'', PyStr ''SBO''), (''Table'', PyStr ''OITM''),
                     (''Description'', PyStr ''Items'')],
                    [(''Schema'', PyStr ''SBO''), (''Table'', PyStr ''ORDR''),
                     (''Description'', PyStr [])]]
              (Some [''Schema'', ''Table'', ''Description'']))
   \<and> fst (get_columns items_connector ''OITM'' None None)
     = Inr (to_csv [[(''Schema'', PyStr ''SBO''), (''Table'', PyStr ''OITM''),
                     (''Column'', PyStr ''ItemCode''), (''DataType'', PyStr ''NVARCHAR''),
                     (''Description'', PyStr [])]]
              (Some [''Schema'', ''Table'', ''Column'', ''DataType'', ''Description'']))"
proof
  let ?kw = "[(''catalog'', PyNone), (''schema'', PyNone), (''search'', PyNone),
              (''limit'', PyInt 50)]"
  let ?tables = "[[(''Schema'', PyStr ''SBO''), (''Table'', PyStr ''OITM''),
                   (''Description'', PyStr ''Items'')],
                  [(''Schema'', PyStr ''SBO''), (''Table'', PyStr ''ORDR''),
                   (''Description'', PyStr [])]]"
  have a: "snd (get_tables items_connector None None None 50) = [Call_get_tables ?kw]
      \<and> conn_get_tables items_connector ?kw = Inr ?tables \<and> ?tables \<noteq> []"
    by (simp add: get_tables_def items_connector_def)
  from metadata_columns_follow_the_data [THEN conjunct1, THEN mp, OF a]
  obtain cols where
    r: "fst (get_tables items_connector None None None 50) = Inr (to_csv ?tables (Some cols))"
    and c: "(''Catalog'' \<in> set cols)
          = (\<exists>t\<in>set ?tables. py_truthy (dict_get t ''Catalog'' PyNone))"
    and s: "(''Schema'' \<in> set cols)
          = (\<exists>t\<in>set ?tables. py_truthy (dict_get t ''Schema'' PyNone))"
    and o: "cols = (if ''Catalog'' \<in> set cols then [''Catalog''] else [])
          @ (if ''Schema'' \<in> set cols then [''Schema''] else []) @ [''Table'', ''Description'']"
    by (elim exE conjE)
  have e: "(''Catalog'' \<in> set cols) = False" "(''Schema'' \<in> set cols) = True"
    unfolding c s by (simp_all add: dict_get_def)
  have "cols = [''Schema'', ''Table'', ''Description'']"
    by (subst o) (simp only: e if_True if_False append_Nil append_Cons)
  with r show "fst (get_tables items_connector None None None 50)
      = Inr (to_csv ?tables (Some [''Schema'', ''Table'', ''Description'']))"
    by (simp only:)
next
  let ?kw = "[(''table'', PyStr ''OITM''), (''catalog'', PyNone), (''schema'', PyNone)]"
  let ?columns = "[[(''Schema'', PyStr ''SBO''), (''Table'', PyStr ''OITM''),
                    (''Column'', PyStr ''ItemCode''), (''DataType'', PyStr ''NVARCHAR''),
                    (''Description'', PyStr [])]]"
  have a: "snd (get_columns items_connector ''OITM'' None None) = [Call_get_columns ?kw]
      \<and> conn_get_columns items_connector ?kw = Inr ?columns \<and> ?columns \<noteq> []"
    by (simp add: get_columns_def items_connector_def)
  from metadata_columns_follow_the_data [THEN conjunct2, THEN mp, OF a]
  obtain cols where
    r: "fst (get_columns items_connector ''OITM'' None None)
          = Inr (to_csv ?columns (Some cols))"
    and c: "(''Catalog'' \<in> set cols)
          = (\<exists>t\<in>set ?columns. py_truthy (dict_get t ''Catalog'' PyNone))"
    and s: "(''Schema'' \<in> set cols)
          = (\<exists>t\<in>set ?columns. py_truthy (dict_get t ''Schema'' PyNone))"
    and o: "cols = (if ''Catalog'' \<in> set cols then [''Catalog''] else [])
          @ (if ''Schema'' \<in> set cols then [''Schema''] else [])
          @ [''Table'', ''Column'', ''DataType'', ''Description'']"
    by (elim exE conjE)
  have e: "(''Catalog'' \<in> set cols) = False" "(''Schema'' \<in> set cols) = True"
    unfolding c s by (simp_all add: dict_get_def)
  have "cols = [''Schema'', ''Table'', ''Column'', ''DataType'', ''Description'']"
    by (subst o) (simp only: e if_True if_False append_Nil append_Cons)
  with r show "fst (get_columns items_connector ''OITM'' None None)
      = Inr (to_csv ?columns (Some [''Schema'', ''Table'', ''Column'', ''DataType'',
                                    ''Description'']))"
    by (simp only:)
qed

section \<open>Rows built by the connectors\<close>

lemma dict_setitem_keys:
  "map fst (dict_setitem d k v) = (if k \<in> fst ` set d then map fst d else map fst d @ [k])"
  by (induction d k v rule: dict_setitem.induct) auto

lemma dict_setitem_map_of: "map_of (dict_setitem d k v) = (map_of d)(k \<mapsto> v)"
  by (induction d k v rule: dict_setitem.induct) auto

lemma dict_setitem_fresh: "k \<notin> fst ` set d \<Longrightarrow> dict_setitem d k v = d @ [(k, v)]"
  by (induction d k v rule: dict_setitem.induct) auto

lemma setitems_keys_distinct:
  "distinct (map fst d) \<Longrightarrow> distinct (map fst (fold (\<lambda>(k, v) d. dict_setitem d k v) kvs d))"
  by (induction kvs arbitrary: d) (auto simp: dict_setitem_keys)

lemma dict_setitem_key_set: "fst ` set (dict_setitem d k v) = insert k (fst ` set d)"
  by (induction d k v rule: dict_setitem.induct) auto

lemma setitems_keys_set:
  "fst ` set (fold (\<lambda>(k, v) d. dict_setitem d k v) kvs d) = fst ` set d \<union> fst ` set kvs"
proof (induction kvs arbitrary: d)
  case Nil
  then show ?case by simp
next
  case (Cons kv kvs)
  obtain k v where kv: "kv = (k, v)" by (cases kv)
  show ?case
    unfolding kv by (simp add: Cons.IH dict_setitem_key_set)
qed

lemma setitems_map_of:
  "map_of (fold (\<lambda>(k, v) d. dict_setitem d k v) kvs d) = map_of d ++ map_of (rev kvs)"
  by (induction kvs arbitrary: d) (auto simp: dict_setitem_map_of)

lemma setitems_fresh:
  "distinct (map fst kvs) \<Longrightarrow> fst ` set kvs \<inter> fst ` set d = {} \<Longrightarrow> fold (\<lambda>(k, v) d. dict_setitem d k v) kvs d = d @ kvs"
proof (induction kvs arbitrary: d)
  case Nil
  then show ?case by simp
next
  case (Cons kv kvs)
  obtain k v where kv: "kv = (k, v)" by (cases kv)
  from Cons.prems kv have f: "k \<notin> fst ` set d" by auto
  have "fst ` set kvs \<inter> fst ` set (d @ [(k, v)]) = {}"
    using Cons.prems kv by auto
  with Cons.IH [of "d @ [(k, v)]"] Cons.prems kv show ?case
    by (simp add: dict_setitem_fresh [OF f])
qed

lemma row_to_dict_fold:
  "row_to_dict names i vals acc =
     (if i + length vals \<le> length names \<or> vals = []
      then Inr (fold (\<lambda>(k, v) d. dict_setitem d k v) (zip (drop i names) vals) acc)
      else Inl (Exception ''list index out of range''))"
proof (induction vals arbitrary: i acc)
  case Nil
  then show ?case by (simp add:)
next
  case (Cons v rest)
  show ?case
  proof (cases "i < length names")
    case True
    then have d: "drop i names = names ! i # drop (Suc i) names"
      by (simp add: Cons_nth_drop_Suc)
    show ?thesis
      using True by (auto simp: Cons.IH d)
  next
    case False
    then show ?thesis by simp
  qed
qed

lemma rows_to_dicts_Inr:
  "rows_to_dicts names vss = Inr rows \<Longrightarrow>
     length rows = length vss
     \<and> (\<forall>i<length vss. row_to_dict names 0 (vss ! i) [] = Inr (rows ! i))"
proof (induction vss arbitrary: rows)
  case Nil
  then show ?case by simp
next
  case (Cons vs vss)
  from Cons.prems obtain d ds where
    d: "row_to_dict names 0 vs [] = Inr d" and ds: "rows_to_dicts names vss = Inr ds"
    and r: "rows = d # ds"
    by (auto simp: and_then_def split: sum.splits)
  from Cons.IH [OF ds] d r show ?case
    by (auto simp: nth_Cons split: nat.splits)
qed

lemma execute_on_Inr:
  "execute_on drv conn sql = Inr rows \<Longrightarrow>
     \<exists>rs names. drv_execute drv sql = Inr rs \<and> description rs = Some names
        \<and> rows_to_dicts names (fetched rs) = Inr rows"
  by (auto simp: execute_on_def and_then_def split: sum.splits option.splits)

lemma execute_query_Inr:
  "fst (execute_query drv c sql) = Inr rows \<Longrightarrow> \<exists>conn. execute_on drv conn sql = Inr rows"
proof (cases c)
  case (Hana self)
  assume "fst (execute_query drv c sql) = Inr rows"
  with Hana show ?thesis
    by (auto simp: HanaConnector_execute_query_def split: prod.splits sum.splits)
next
  case (Odbc self)
  assume "fst (execute_query drv c sql) = Inr rows"
  with Odbc show ?thesis
    by (auto simp: OdbcConnector_execute_query_def split: prod.splits sum.splits)
qed

lemma row_to_dict_Inr:
  assumes "row_to_dict names 0 vals [] = Inr row"
  shows "length vals \<le> length names
     \<and> distinct (dict_keys row)
     \<and> set (dict_keys row) = set (take (length vals) names)
     \<and> map_of row = map_of (rev (zip names vals))
     \<and> (distinct names \<longrightarrow> row = zip names vals)"
proof -
  let ?kvs = "zip names vals"
  from assms have len: "length vals \<le> length names"
    and row: "row = fold (\<lambda>(k, v) d. dict_setitem d k v) ?kvs []"
    by (auto simp: row_to_dict_fold split: if_splits)
  have keys: "map fst ?kvs = take (length vals) names"
    using len by (simp add: map_fst_zip_take min_def)
  have 1: "distinct (dict_keys row)"
    unfolding row dict_keys_def by (rule setitems_keys_distinct) simp
  have 2: "set (dict_keys row) = set (take (length vals) names)"
    unfolding row dict_keys_def set_map setitems_keys_set keys [symmetric] by simp
  have 3: "map_of row = map_of (rev ?kvs)"
    unfolding row by (simp add: setitems_map_of)
  have 4: "distinct names \<longrightarrow> row = ?kvs"
  proof
    assume "distinct names"
    then have "distinct (map fst ?kvs)"
      unfolding keys by (rule distinct_take)
    then show "row = ?kvs"
      unfolding row by (simp add: setitems_fresh)
  qed
  from len 1 2 3 4 show ?thesis by (intro conjI)
qed

text \<open>
  Claim C3, as the spec states it, says that when the reported column names contain
  duplicates every reported column is still present in each row. A row is a dictionary,
  and assigning twice under one name keeps one entry: with the names CODE, CODE and the
  values A1, B2 either connector returns the single entry CODE: B2.
\<close>

theorem duplicate_column_names_counterexample:
  "drv_execute duplicate_names_driver (cps ''SELECT CODE, CODE FROM T'')
     = Inr \<lparr>description = Some [''CODE'', ''CODE''], fetched = [[PyStr ''A1'', PyStr ''B2'']]\<rparr>
   \<and> fst (execute_query duplicate_names_driver (Hana new_HanaConnector) (cps ''SELECT CODE, CODE FROM T''))
     = Inr [[(''CODE'', PyStr ''B2'')]]
   \<and> fst (execute_query duplicate_names_driver (Odbc new_OdbcConnector) (cps ''SELECT CODE, CODE FROM T''))
     = Inr [[(''CODE'', PyStr ''B2'')]]"
  by (simp add: duplicate_names_driver_def new_HanaConnector_def new_OdbcConnector_def
        HanaConnector_execute_query_def HanaConnector_get_connection_def
        HanaConnector_connect_def OdbcConnector_execute_query_def
        OdbcConnector_get_connection_def OdbcConnector_connect_def
        execute_on_def and_then_def)

text \<open>
  Claim C3, amended. For either connector variant, when \<^verbatim>\<open>execute_query\<close> returns, it
  returns one row per fetched row, in order; each row has exactly one entry for each
  distinct column name reported for its values, and the entry of a name holds the value
  of the last column reported under that name. When the reported names are pairwise
  distinct, each row has one entry per reported column, in the reported order, with the
  values passed through unchanged. Columns that share a name are merged into one entry.
\<close>

theorem execute_query_rows:
  assumes "fst (execute_query drv c sql) = Inr rows"
    and "drv_execute drv sql = Inr rs"
    and "description rs = Some names"
  shows "length rows = length (fetched rs)
     \<and> (\<forall>i<length rows.
           length (fetched rs ! i) \<le> length names
         \<and> distinct (dict_keys (rows ! i))
         \<and> set (dict_keys (rows ! i)) = set (take (length (fetched rs ! i)) names)
         \<and> map_of (rows ! i) = map_of (rev (zip names (fetched rs ! i)))
         \<and> (distinct names \<longrightarrow> rows ! i = zip names (fetched rs ! i)))"
proof -
  from execute_query_Inr [OF assms(1)] obtain conn where "execute_on drv conn sql = Inr rows" ..
  from execute_on_Inr [OF this] assms(2,3) have "rows_to_dicts names (fetched rs) = Inr rows"
    by auto
  from rows_to_dicts_Inr [OF this] have len: "length rows = length (fetched rs)"
    and each: "\<forall>i<length (fetched rs). row_to_dict names 0 (fetched rs ! i) [] = Inr (rows ! i)"
    by simp_all
  show ?thesis
  proof (intro conjI allI impI)
    show "length rows = length (fetched rs)" by (rule len)
  next
    fix i assume "i < length rows"
    with len each have r: "row_to_dict names 0 (fetched rs ! i) [] = Inr (rows ! i)" by simp
    note p = row_to_dict_Inr [OF r]
    show "length (fetched rs ! i) \<le> length names" by (rule p [THEN conjunct1])
    show "distinct (dict_keys (rows ! i))" by (rule p [THEN conjunct2, THEN conjunct1])
    show "set (dict_keys (rows ! i)) = set (take (length (fetched rs ! i)) names)"
      by (rule p [THEN conjunct2, THEN conjunct2, THEN conjunct1])
    show "map_of (rows ! i) = map_of (rev (zip names (fetched rs ! i)))"
      by (rule p [THEN conjunct2, THEN conjunct2, THEN conjunct2, THEN conjunct1])
    assume "distinct names"
    with p show "rows ! i = zip names (fetched rs ! i)" by simp
  qed
qed

theorem execute_query_rows_witness:
  "fst (execute_query plain_driver (Odbc new_OdbcConnector) (cps ''SELECT CODE, NAME FROM T''))
     = Inr [[(''CODE'', PyStr ''A1''), (''NAME'', PyStr ''Bolt'')],
            [(''CODE'', PyStr ''B2''), (''NAME'', PyNone)]]
   \<and> distinct [''CODE'', ''NAME'']
   \<and> [[(''CODE'', PyStr ''A1''), (''NAME'', PyStr ''Bolt'')],
       [(''CODE'', PyStr ''B2''), (''NAME'', PyNone)]] ! 1
     = zip [''CODE'', ''NAME''] [PyStr ''B2'', PyNone]"
proof -
  let ?q = "cps ''SELECT CODE, NAME FROM T''"
  let ?rs = "\<lparr>description = Some [''CODE'', ''NAME''],
              fetched = [[PyStr ''A1'', PyStr ''Bolt''], [PyStr ''B2'', PyNone]]\<rparr>"
  let ?rows = "[[(''CODE'', PyStr ''A1''), (''NAME'', PyStr ''Bolt'')],
                [(''CODE'', PyStr ''B2''), (''NAME'', PyNone)]]"
  have h1: "fst (execute_query plain_driver (Odbc new_OdbcConnector) ?q) = Inr ?rows"
    by (simp add: plain_driver_def new_OdbcConnector_def OdbcConnector_execute_query_def
          OdbcConnector_get_connection_def OdbcConnector_connect_def execute_on_def and_then_def)
  have h2: "drv_execute plain_driver ?q = Inr ?rs"
    by (simp add: plain_driver_def)
  have h3: "description ?rs = Some [''CODE'', ''NAME'']"
    by simp
  have d: "distinct [''CODE'', ''NAME'']"
    by simp
  have i: "1 < length ?rows"
    by simp
  note t = execute_query_rows [OF h1 h2 h3, THEN conjunct2, THEN spec, THEN mp, OF i]
  from t d have "?rows ! 1 = zip [''CODE'', ''NAME''] (fetched ?rs ! 1)"
    by (simp only:)
  with h1 d show ?thesis
    by simp
qed

section \<open>list-tables over the ODBC connector\<close>

text \<open>
  The list-tables handler always passes the keywords \<^verbatim>\<open>search\<close> and \<^verbatim>\<open>limit\<close>;
  \<^verbatim>\<open>OdbcConnector.get_tables\<close> has no such parameters, so the call raises
  \<^verbatim>\<open>TypeError\<close> before the driver is asked anything, and the handler turns it into text.
\<close>

lemma odbc_list_tables_rejects_filters:
  "get_tables (OdbcConnector_tools drv self) catalog schema search limit
     = (Inr (''ERROR: '' @ str_exn (TypeError_unexpected ''OdbcConnector.get_tables'' ''search'')),
        [Call_get_tables [(''catalog'', py_opt catalog), (''schema'', py_opt schema),
                          (''search'', py_opt search), (''limit'', PyInt limit)]])"
  by (simp add: get_tables_def OdbcConnector_tools_def OdbcConnector_call_get_tables_def
        unexpected_keyword_def and_then_def except_Exception_def TypeError_unexpected_def)

text \<open>
  Claim C4 says that list-tables with \<^verbatim>\<open>search\<close> or \<^verbatim>\<open>limit\<close> set succeeds on the ODBC
  connector and returns the unfiltered table set of the driver's catalog function. On a
  driver whose catalog function reports one table, \<^verbatim>\<open>get_tables(search='ITM', limit=10)\<close>
  returns an error text instead, although the connector's own method, called without the
  two keywords, returns that table.
\<close>

theorem odbc_list_tables_search_fails:
  "fst (OdbcConnector_get_tables duplicate_names_driver new_OdbcConnector PyNone PyNone)
     = Inr [[(''Catalog'', PyStr []), (''Schema'', PyStr ''dbo''), (''Table'', PyStr ''OITM''),
             (''Description'', PyStr [])]]
   \<and> fst (get_tables (OdbcConnector_tools duplicate_names_driver new_OdbcConnector)
            None None (Some ''ITM'') 10)
     = Inr (''ERROR: OdbcConnector.get_tables() got an unexpected keyword argument ''
              @ [CHR 0x27] @ ''search'' @ [CHR 0x27])"
  by (simp add: get_tables_def OdbcConnector_tools_def OdbcConnector_call_get_tables_def
        unexpected_keyword_def TypeError_unexpected_def OdbcConnector_get_tables_def
        OdbcConnector_get_connection_def OdbcConnector_connect_def new_OdbcConnector_def
        duplicate_names_driver_def and_then_def tables_dict_def py_or_def
        except_Exception_def)

section \<open>test\_connection and the last error\<close>

text \<open>
  Claim C6, as the spec states it, says that after a failed \<^verbatim>\<open>test_connection\<close> the
  last-error accessor of every connector variant returns a non-empty message. The ODBC
  connector has no such accessor and stores nothing; the HANA connector stores the text
  of the exception, which is empty when the exception carries no message.
\<close>

theorem last_error_counterexample:
  "fst (test_connection unreachable_driver (Odbc new_OdbcConnector)) = Inr False
   \<and> get_last_error (snd (test_connection unreachable_driver (Odbc new_OdbcConnector))) = None
   \<and> fst (test_connection silent_driver (Hana new_HanaConnector)) = Inr False
   \<and> get_last_error (snd (test_connection silent_driver (Hana new_HanaConnector))) = Some []"
  by (simp add: unreachable_driver_def silent_driver_def new_OdbcConnector_def
        new_HanaConnector_def OdbcConnector_test_connection_def
        OdbcConnector_test_connection_try_def OdbcConnector_get_connection_def
        OdbcConnector_connect_def HanaConnector_test_connection_def
        HanaConnector_test_connection_try_def HanaConnector_get_connection_def
        HanaConnector_connect_def HanaConnector_get_last_error_def)

text \<open>
  Claim C6, amended. For either connector variant \<^verbatim>\<open>test_connection\<close> never raises on a
  backend failure, an exception that is an instance of \<^verbatim>\<open>Exception\<close>: it returns false
  exactly when a step of its \<^verbatim>\<open>try\<close> block raised one, and in particular when the
  driver cannot connect. For the HANA variant the last-error accessor then returns the
  text of that exception. The ODBC variant has no last-error accessor and keeps no
  message; its state after a failed connection attempt is unchanged. What leaves
  \<^verbatim>\<open>test_connection\<close> is never an instance of \<^verbatim>\<open>Exception\<close>: only an exception
  outside that class, raised inside the \<^verbatim>\<open>try\<close> block, passes through.
\<close>

theorem test_connection_outcome:
  "((fst (test_connection drv (Hana h)) = Inr False)
      = (\<exists>msg. fst (HanaConnector_test_connection_try drv h) = Inl (Exception msg)))
   \<and> (\<forall>msg. fst (HanaConnector_test_connection_try drv h) = Inl (Exception msg)
         \<longrightarrow> get_last_error (snd (test_connection drv (Hana h))) = Some msg)
   \<and> (hana_connection h = None \<and> installed drv \<and> drv_connect drv = Inl (Exception msg')
         \<longrightarrow> test_connection drv (Hana h)
               = (Inr False, Hana (h\<lparr>hana_last_error := Some msg'\<rparr>)))
   \<and> ((fst (test_connection drv (Odbc c)) = Inr False)
      = (\<exists>msg. fst (OdbcConnector_test_connection_try drv c) = Inl (Exception msg)))
   \<and> get_last_error (snd (test_connection drv (Odbc c))) = None
   \<and> (odbc_connection c = None \<and> installed drv \<and> drv_connect drv = Inl (Exception msg')
         \<longrightarrow> test_connection drv (Odbc c) = (Inr False, Odbc c))
   \<and> (\<forall>msg. fst (test_connection drv (Hana h)) \<noteq> Inl (Exception msg)
           \<and> fst (test_connection drv (Odbc c)) \<noteq> Inl (Exception msg))
   \<and> (\<forall>e. (fst (test_connection drv (Hana h)) = Inl e)
           = (fst (HanaConnector_test_connection_try drv h) = Inl e
              \<and> (\<exists>m. e = BaseException m)))
   \<and> (\<forall>e. (fst (test_connection drv (Odbc c)) = Inl e)
           = (fst (OdbcConnector_test_connection_try drv c) = Inl e
              \<and> (\<exists>m. e = BaseException m)))"
proof (intro conjI allI impI)
  show "(fst (test_connection drv (Hana h)) = Inr False)
      = (\<exists>msg. fst (HanaConnector_test_connection_try drv h) = Inl (Exception msg))"
    by (cases "HanaConnector_test_connection_try drv h")
       (auto simp: HanaConnector_test_connection_def split: sum.splits exn.splits)
next
  fix msg assume "fst (HanaConnector_test_connection_try drv h) = Inl (Exception msg)"
  then show "get_last_error (snd (test_connection drv (Hana h))) = Some msg"
    by (cases "HanaConnector_test_connection_try drv h")
       (simp add: HanaConnector_test_connection_def HanaConnector_get_last_error_def)
next
  assume "hana_connection h = None \<and> installed drv \<and> drv_connect drv = Inl (Exception msg')"
  then show "test_connection drv (Hana h)
      = (Inr False, Hana (h\<lparr>hana_last_error := Some msg'\<rparr>))"
    by (simp add: HanaConnector_test_connection_def HanaConnector_test_connection_try_def
          HanaConnector_get_connection_def HanaConnector_connect_def)
next
  show "(fst (test_connection drv (Odbc c)) = Inr False)
      = (\<exists>msg. fst (OdbcConnector_test_connection_try drv c) = Inl (Exception msg))"
    by (cases "OdbcConnector_test_connection_try drv c")
       (auto simp: OdbcConnector_test_connection_def split: sum.splits exn.splits)
next
  show "get_last_error (snd (test_connection drv (Odbc c))) = None"
    by (cases "OdbcConnector_test_connection drv c") simp
next
  assume "odbc_connection c = None \<and> installed drv \<and> drv_connect drv = Inl (Exception msg')"
  then show "test_connection drv (Odbc c) = (Inr False, Odbc c)"
    by (simp add: OdbcConnector_test_connection_def OdbcConnector_test_connection_try_def
          OdbcConnector_get_connection_def OdbcConnector_connect_def)
next
  fix msg
  show "fst (test_connection drv (Hana h)) \<noteq> Inl (Exception msg)"
    by (cases "HanaConnector_test_connection_try drv h")
       (auto simp: HanaConnector_test_connection_def split: sum.splits exn.splits)
  show "fst (test_connection drv (Odbc c)) \<noteq> Inl (Exception msg)"
    by (cases "OdbcConnector_test_connection_try drv c")
       (auto simp: OdbcConnector_test_connection_def split: sum.splits exn.splits)
next
  fix e
  show "(fst (test_connection drv (Hana h)) = Inl e)
      = (fst (HanaConnector_test_connection_try drv h) = Inl e \<and> (\<exists>m. e = BaseException m))"
    by (cases "HanaConnector_test_connection_try drv h")
       (auto simp: HanaConnector_test_connection_def split: sum.splits exn.splits)
next
  fix e
  show "(fst (test_connection drv (Odbc c)) = Inl e)
      = (fst (OdbcConnector_test_connection_try drv c) = Inl e \<and> (\<exists>m. e = BaseException m))"
    by (cases "OdbcConnector_test_connection_try drv c")
       (auto simp: OdbcConnector_test_connection_def split: sum.splits exn.splits)
qed

theorem test_connection_outcome_witness:
  "hana_connection new_HanaConnector = None \<and> installed unreachable_driver
   \<and> drv_connect unreachable_driver = Inl (Exception ''Connection failed: host unreachable'')
   \<and> fst (test_connection unreachable_driver (Hana new_HanaConnector)) = Inr False
   \<and> get_last_error (snd (test_connection unreachable_driver (Hana new_HanaConnector)))
       = Some ''Connection failed: host unreachable''
   \<and> test_connection unreachable_driver (Odbc new_OdbcConnector)
       = (Inr False, Odbc new_OdbcConnector)"
proof -
  let ?m = "''Connection failed: host unreachable''"
  have a: "hana_connection new_HanaConnector = None \<and> installed unreachable_driver
      \<and> drv_connect unreachable_driver = Inl (Exception ?m)"
    by (simp add: new_HanaConnector_def unreachable_driver_def)
  have b: "odbc_connection new_OdbcConnector = None \<and> installed unreachable_driver
      \<and> drv_connect unreachable_driver = Inl (Exception ?m)"
    by (simp add: new_OdbcConnector_def unreachable_driver_def)
  note t = test_connection_outcome
    [where drv = unreachable_driver and h = new_HanaConnector and c = new_OdbcConnector
       and msg' = ?m]
  have "test_connection unreachable_driver (Hana new_HanaConnector)
      = (Inr False, Hana (new_HanaConnector\<lparr>hana_last_error := Some ?m\<rparr>))"
    by (rule t [THEN conjunct2, THEN conjunct2, THEN conjunct1, THEN mp, OF a])
  moreover have "test_connection unreachable_driver (Odbc new_OdbcConnector)
      = (Inr False, Odbc new_OdbcConnector)"
    by (rule t [THEN conjunct2, THEN conjunct2, THEN conjunct2, THEN conjunct2, THEN conjunct2,
                THEN conjunct1, THEN mp, OF b])
  ultimately show ?thesis
    using a by (simp add: HanaConnector_get_last_error_def)
qed

section \<open>The tabular formatter\<close>











end
